theory Spec2Isabelle
  imports Main "HOL-Library.AList"
begin

section \<open>Data model\<close>

text \<open>
  The work order catalogue of \<^verbatim>\<open>wo_1_simple_implementation.py\<close> and
  \<^verbatim>\<open>work_order_indexer.py\<close> (the two modules hold the same \<^verbatim>\<open>WorkOrder\<close> and
  \<^verbatim>\<open>WorkOrderIndex\<close> classes, line for line).

  Strings are byte strings: \<^verbatim>\<open>str.lower()\<close> and the regular expression class
  \<^verbatim>\<open>\w\<close> are modelled on ASCII.
\<close>

datatype WorkOrderStatus =
  QUEUED | IN_PROGRESS | COMPLETED | FAILED | CANCELLED | PENDING_APPROVAL | ON_HOLD

datatype WorkOrderPriority = LOW | MEDIUM | HIGH | URGENT | CRITICAL

text \<open>A naive \<^verbatim>\<open>datetime\<close> value: its seven fields.\<close>

record datetime =
  year :: nat
  month :: nat
  day :: nat
  hour :: nat
  minute :: nat
  second :: nat
  microsecond :: nat

text \<open>
  JSON-like values, as \<^verbatim>\<open>json.loads\<close> yields them and as the discovery code receives
  them. An object is a Python \<^verbatim>\<open>dict\<close>: an association list in insertion order, looked
  up with \<^const>\<open>map_of\<close>. Floating point numbers are left out.
\<close>

datatype json =
  JNull
| JBool bool
| JInt int
| JStr string
| JList "json list"
| JObj "(string \<times> json) list"

text \<open>
  The dataclass \<^verbatim>\<open>WorkOrder\<close> with the field types of its annotations. The field
  \<^verbatim>\<open>id\<close> is named \<open>wo_id\<close> here.
\<close>

record WorkOrder =
  wo_id :: string
  title :: string
  description :: string
  status :: WorkOrderStatus
  priority :: WorkOrderPriority
  created_at :: datetime
  updated_at :: datetime
  assigned_to :: "string option"
  due_date :: "datetime option"
  tags :: "string list"
  metadata :: "(string \<times> json) list"
  source :: string

text \<open>
  \<^verbatim>\<open>WorkOrderIndex\<close>: the primary store and the five indexes. The dictionaries keyed by
  strings are association lists in insertion order; \<^verbatim>\<open>index_by_status\<close> and
  \<^verbatim>\<open>index_by_priority\<close> are initialised with every member of their enum and never
  gain or lose a key, so they are total functions.
\<close>

record WorkOrderIndex =
  work_orders :: "(string \<times> WorkOrder) list"
  index_by_status :: "WorkOrderStatus \<Rightarrow> string list"
  index_by_priority :: "WorkOrderPriority \<Rightarrow> string list"
  index_by_assigned :: "(string \<times> string list) list"
  index_by_tags :: "(string \<times> string list) list"
  search_index :: "(string \<times> string list) list"

section \<open>Dictionaries and text\<close>

text \<open>
  \<^verbatim>\<open>d[k] = v\<close> on a Python dict is \<^const>\<open>AList.update\<close>: an existing key keeps its
  position, a new key goes to the end.

  \<^verbatim>\<open>if k not in d: d[k] = []\<close> followed by \<^verbatim>\<open>d[k].append(x)\<close>:
\<close>

definition bucket :: "(string \<times> string list) list \<Rightarrow> string \<Rightarrow> string list" where
  "bucket d k = (case map_of d k of None \<Rightarrow> [] | Some xs \<Rightarrow> xs)"

definition append_to_bucket ::
  "string \<Rightarrow> string \<Rightarrow> (string \<times> string list) list \<Rightarrow> (string \<times> string list) list" where
  "append_to_bucket k x d = AList.update k (bucket d k @ [x]) d"

text \<open>
  \<^verbatim>\<open>ord\<close> is the code of a character; \<^verbatim>\<open>str.lower()\<close> on ASCII moves the
  letters A (65) to Z (90) to a (97) to z (122).
\<close>

definition ord :: "char \<Rightarrow> nat" where
  "ord c = of_char c"

definition lower_char :: "char \<Rightarrow> char" where
  "lower_char c = (if 65 \<le> ord c \<and> ord c \<le> 90 then char_of (ord c + 32) else c)"

definition lower :: "string \<Rightarrow> string" where
  "lower s = map lower_char s"

text \<open>The class \<^verbatim>\<open>\w\<close> on ASCII: letters, digits and the underscore.\<close>

definition is_word_char :: "char \<Rightarrow> bool" where
  "is_word_char c \<longleftrightarrow>
     (97 \<le> ord c \<and> ord c \<le> 122) \<or> (65 \<le> ord c \<and> ord c \<le> 90) \<or>
     (48 \<le> ord c \<and> ord c \<le> 57) \<or> c = CHR ''_''"

text \<open>
  \<^verbatim>\<open>re.findall(r'\b\w+\b', text)\<close>: the maximal runs of word characters, left to
  right. The first argument is the run being read.
\<close>

fun findall_words_from :: "string \<Rightarrow> string \<Rightarrow> string list" where
  "findall_words_from cur [] = (if cur = [] then [] else [cur])"
| "findall_words_from cur (c # cs) =
     (if is_word_char c then findall_words_from (cur @ [c]) cs
      else (if cur = [] then [] else [cur]) @ findall_words_from [] cs)"

definition findall_words :: "string \<Rightarrow> string list" where
  "findall_words text = findall_words_from [] text"

text \<open>\<^verbatim>\<open>' '.join(xs)\<close>.\<close>

fun join_spaces :: "string list \<Rightarrow> string" where
  "join_spaces [] = []"
| "join_spaces [x] = x"
| "join_spaces (x # y # ys) = x @ '' '' @ join_spaces (y # ys)"

section \<open>The index\<close>

text \<open>\<^verbatim>\<open>WorkOrderIndex.__init__\<close>.\<close>

definition init_index :: WorkOrderIndex where
  "init_index =
     \<lparr>work_orders = [], index_by_status = (\<lambda>_. []), index_by_priority = (\<lambda>_. []),
      index_by_assigned = [], index_by_tags = [], search_index = []\<rparr>"

text \<open>
  \<^verbatim>\<open>_update_search_index\<close>: the searchable text, its words, and the loop that enters the
  id under each word unless it is there already.
\<close>

definition searchable_text :: "WorkOrder \<Rightarrow> string" where
  "searchable_text wo = title wo @ '' '' @ description wo @ '' '' @ join_spaces (tags wo)"

definition words_of :: "WorkOrder \<Rightarrow> string list" where
  "words_of wo = findall_words (lower (searchable_text wo))"

definition index_word ::
  "string \<Rightarrow> (string \<times> string list) list \<Rightarrow> string \<Rightarrow> (string \<times> string list) list" where
  "index_word i d word =
     (let d1 = (if map_of d word = None then AList.update word [] d else d)
      in if i \<notin> set (bucket d1 word) then AList.update word (bucket d1 word @ [i]) d1 else d1)"

definition update_search_index :: "WorkOrderIndex \<Rightarrow> WorkOrder \<Rightarrow> WorkOrderIndex" where
  "update_search_index s wo =
     s\<lparr>search_index := foldl (index_word (wo_id wo)) (search_index s) (words_of wo)\<rparr>"

text \<open>\<^verbatim>\<open>add_work_order\<close>. An empty \<^verbatim>\<open>assigned_to\<close> is falsy, like \<^verbatim>\<open>None\<close>.\<close>

definition add_work_order :: "WorkOrderIndex \<Rightarrow> WorkOrder \<Rightarrow> WorkOrderIndex" where
  "add_work_order s wo =
     (let s1 = s\<lparr>work_orders := AList.update (wo_id wo) wo (work_orders s)\<rparr>;
          s2 = s1\<lparr>index_by_status :=
                 (index_by_status s1)(status wo := index_by_status s1 (status wo) @ [wo_id wo])\<rparr>;
          s3 = s2\<lparr>index_by_priority :=
                 (index_by_priority s2)
                   (priority wo := index_by_priority s2 (priority wo) @ [wo_id wo])\<rparr>;
          s4 = (case assigned_to wo of
                  None \<Rightarrow> s3
                | Some a \<Rightarrow>
                    if a = [] then s3
                    else s3\<lparr>index_by_assigned :=
                           append_to_bucket a (wo_id wo) (index_by_assigned s3)\<rparr>);
          s5 = s4\<lparr>index_by_tags :=
                 foldl (\<lambda>d tag. append_to_bucket tag (wo_id wo) d) (index_by_tags s4) (tags wo)\<rparr>
      in update_search_index s5 wo)"

text \<open>A sequence of \<^verbatim>\<open>add_work_order\<close> calls, in order.\<close>

definition add_all :: "WorkOrderIndex \<Rightarrow> WorkOrder list \<Rightarrow> WorkOrderIndex" where
  "add_all s wos = foldl add_work_order s wos"

text \<open>\<^verbatim>\<open>get_work_order\<close>: \<^verbatim>\<open>self.work_orders.get(work_order_id)\<close>.\<close>

definition get_work_order :: "WorkOrderIndex \<Rightarrow> string \<Rightarrow> WorkOrder option" where
  "get_work_order s i = map_of (work_orders s) i"

text \<open>
  The list comprehension of the four filters:
  \<^verbatim>\<open>[self.work_orders[wo_id] for wo_id in ids if wo_id in self.work_orders]\<close>.
\<close>

definition lookup_all :: "WorkOrderIndex \<Rightarrow> string list \<Rightarrow> WorkOrder list" where
  "lookup_all s ids = List.map_filter (map_of (work_orders s)) ids"


definition get_work_orders_by_priority ::
  "WorkOrderIndex \<Rightarrow> WorkOrderPriority \<Rightarrow> WorkOrder list" where
  "get_work_orders_by_priority s p = lookup_all s (index_by_priority s p)"

definition get_work_orders_by_assigned :: "WorkOrderIndex \<Rightarrow> string \<Rightarrow> WorkOrder list" where
  "get_work_orders_by_assigned s a = lookup_all s (bucket (index_by_assigned s) a)"

definition get_work_orders_by_tag :: "WorkOrderIndex \<Rightarrow> string \<Rightarrow> WorkOrder list" where
  "get_work_orders_by_tag s t = lookup_all s (bucket (index_by_tags s) t)"

section \<open>Reference notions and example data\<close>

text \<open>The record most recently passed to \<^verbatim>\<open>add_work_order\<close> under an id, if any.\<close>

definition last_added :: "WorkOrder list \<Rightarrow> string \<Rightarrow> WorkOrder option" where
  "last_added wos i = find (\<lambda>w. wo_id w = i) (rev wos)"

text \<open>The two work orders of the documented scenario, and the first one after completion.\<close>

definition example_time :: datetime where
  "example_time =
     \<lparr>year = 2024, month = 5, day = 17, hour = 9, minute = 30, second = 0, microsecond = 0\<rparr>"

definition wo_login :: WorkOrder where
  "wo_login =
     \<lparr>wo_id = ''wo_1'', title = ''Fix login bug'', description = ''auth fails'',
      status = QUEUED, priority = HIGH, created_at = example_time, updated_at = example_time,
      assigned_to = None, due_date = None, tags = [''bug'', ''auth''], metadata = [],
      source = ''8090_factory''\<rparr>"

definition wo_dashboard :: WorkOrder where
  "wo_dashboard =
     \<lparr>wo_id = ''wo_2'', title = ''Add dashboard'', description = [],
      status = IN_PROGRESS, priority = MEDIUM, created_at = example_time,
      updated_at = example_time, assigned_to = Some ''frontend@company.com'', due_date = None,
      tags = [''feature''], metadata = [], source = ''8090_factory''\<rparr>"

definition wo_login_done :: WorkOrder where
  "wo_login_done = wo_login\<lparr>status := COMPLETED\<rparr>"

section \<open>Search\<close>






section \<open>Serialisation\<close>

text \<open>
  Exceptions are values. \<open>NotAnnotated\<close> is not a Python exception: it marks a record
  whose field has another type than the dataclass annotation says. Python stores such a
  value unchecked; the model, whose \<^typ>\<open>WorkOrder\<close> follows the annotations, does not
  follow such a record any further.
\<close>

datatype py_error =
  KeyError | ValueError | TypeError | AttributeError | OverflowError | NotAnnotated

text \<open>The values of the two enums, and the lookup of a member by value.\<close>

fun status_value :: "WorkOrderStatus \<Rightarrow> string" where
  "status_value QUEUED = ''queued''"
| "status_value IN_PROGRESS = ''in_progress''"
| "status_value COMPLETED = ''completed''"
| "status_value FAILED = ''failed''"
| "status_value CANCELLED = ''cancelled''"
| "status_value PENDING_APPROVAL = ''pending_approval''"
| "status_value ON_HOLD = ''on_hold''"

fun priority_value :: "WorkOrderPriority \<Rightarrow> string" where
  "priority_value LOW = ''low''"
| "priority_value MEDIUM = ''medium''"
| "priority_value HIGH = ''high''"
| "priority_value URGENT = ''urgent''"
| "priority_value CRITICAL = ''critical''"

definition all_statuses :: "WorkOrderStatus list" where
  "all_statuses = [QUEUED, IN_PROGRESS, COMPLETED, FAILED, CANCELLED, PENDING_APPROVAL, ON_HOLD]"

definition all_priorities :: "WorkOrderPriority list" where
  "all_priorities = [LOW, MEDIUM, HIGH, URGENT, CRITICAL]"

definition status_of_value :: "string \<Rightarrow> WorkOrderStatus option" where
  "status_of_value v = find (\<lambda>st. status_value st = v) all_statuses"

definition priority_of_value :: "string \<Rightarrow> WorkOrderPriority option" where
  "priority_of_value v = find (\<lambda>p. priority_value p = v) all_priorities"

text \<open>
  \<^verbatim>\<open>WorkOrder.to_dict\<close>: \<^verbatim>\<open>asdict\<close> lists the twelve fields in declaration order; the
  enums are replaced by their values and the timestamps by \<^verbatim>\<open>isoformat()\<close>, which is
  the parameter \<open>isofmt\<close>. A \<^verbatim>\<open>datetime\<close> is always truthy, so a present
  \<^verbatim>\<open>due_date\<close> is always converted.
\<close>

definition to_dict :: "(datetime \<Rightarrow> string) \<Rightarrow> WorkOrder \<Rightarrow> json" where
  "to_dict isofmt wo = JObj
     [(''id'', JStr (wo_id wo)),
      (''title'', JStr (title wo)),
      (''description'', JStr (description wo)),
      (''status'', JStr (status_value (status wo))),
      (''priority'', JStr (priority_value (priority wo))),
      (''created_at'', JStr (isofmt (created_at wo))),
      (''updated_at'', JStr (isofmt (updated_at wo))),
      (''assigned_to'', (case assigned_to wo of None \<Rightarrow> JNull | Some a \<Rightarrow> JStr a)),
      (''due_date'', (case due_date wo of None \<Rightarrow> JNull | Some t \<Rightarrow> JStr (isofmt t))),
      (''tags'', JList (map JStr (tags wo))),
      (''metadata'', JObj (metadata wo)),
      (''source'', JStr (source wo))]"

text \<open>Python truthiness of a JSON-like value.\<close>

fun truthy :: "json \<Rightarrow> bool" where
  "truthy JNull = False"
| "truthy (JBool b) = b"
| "truthy (JInt n) = (n \<noteq> 0)"
| "truthy (JStr s) = (s \<noteq> [])"
| "truthy (JList xs) = (xs \<noteq> [])"
| "truthy (JObj kvs) = (kvs \<noteq> [])"

text \<open>
  The steps of \<^verbatim>\<open>WorkOrder.from_dict\<close>. \<^verbatim>\<open>data[k]\<close> raises KeyError for a missing
  key. \<^verbatim>\<open>WorkOrderStatus(v)\<close> raises ValueError unless \<open>v\<close> is the value of a member.
  \<^verbatim>\<open>datetime.fromisoformat(v)\<close>, the parameter \<open>fromiso\<close>, raises TypeError for an
  argument that is not a string and ValueError (here: \<open>None\<close>) for a string it cannot
  parse. \<open>and_then\<close> passes a result on unless an exception was raised.
\<close>

definition and_then :: "py_error + 'a \<Rightarrow> ('a \<Rightarrow> py_error + 'b) \<Rightarrow> py_error + 'b" where
  "and_then r f = (case r of Inl e \<Rightarrow> Inl e | Inr x \<Rightarrow> f x)"

definition subscript :: "(string \<times> json) list \<Rightarrow> string \<Rightarrow> py_error + json" where
  "subscript d k = (case map_of d k of None \<Rightarrow> Inl KeyError | Some v \<Rightarrow> Inr v)"

definition parse_status :: "json \<Rightarrow> py_error + WorkOrderStatus" where
  "parse_status v =
     (case v of
        JStr s \<Rightarrow> (case status_of_value s of None \<Rightarrow> Inl ValueError | Some st \<Rightarrow> Inr st)
      | _ \<Rightarrow> Inl ValueError)"

definition parse_priority :: "json \<Rightarrow> py_error + WorkOrderPriority" where
  "parse_priority v =
     (case v of
        JStr s \<Rightarrow> (case priority_of_value s of None \<Rightarrow> Inl ValueError | Some p \<Rightarrow> Inr p)
      | _ \<Rightarrow> Inl ValueError)"

definition parse_isoformat :: "(string \<Rightarrow> datetime option) \<Rightarrow> json \<Rightarrow> py_error + datetime" where
  "parse_isoformat fromiso v =
     (case v of
        JStr s \<Rightarrow> (case fromiso s of None \<Rightarrow> Inl ValueError | Some t \<Rightarrow> Inr t)
      | _ \<Rightarrow> Inl TypeError)"

text \<open>
  \<^verbatim>\<open>if data.get('due_date'): data['due_date'] = datetime.fromisoformat(...)\<close>. A falsy
  entry is left as it is: \<^verbatim>\<open>None\<close> (or no entry) is an absent due date; any other
  falsy value is not of the annotated type.
\<close>

definition parse_due_date ::
  "(string \<Rightarrow> datetime option) \<Rightarrow> (string \<times> json) list \<Rightarrow> py_error + datetime option option" where
  "parse_due_date fromiso d =
     (case map_of d ''due_date'' of
        None \<Rightarrow> Inr (Some None)
      | Some v \<Rightarrow>
          if truthy v then
            (case parse_isoformat fromiso v of Inl e \<Rightarrow> Inl e | Inr t \<Rightarrow> Inr (Some (Some t)))
          else if v = JNull then Inr (Some None) else Inr None)"

text \<open>
  The constructor call with the dict as keyword arguments: a key that is no field name,
  or a missing \<^verbatim>\<open>id\<close>, \<^verbatim>\<open>title\<close> or \<^verbatim>\<open>description\<close>, raises TypeError. The remaining fields have defaults, and
  \<^verbatim>\<open>__post_init__\<close> turns a \<^verbatim>\<open>None\<close> for \<^verbatim>\<open>tags\<close> or \<^verbatim>\<open>metadata\<close> into the empty
  list or dict. The readers below return \<open>None\<close> for a value that is not of the annotated
  type.
\<close>

definition field_names :: "string list" where
  "field_names = [''id'', ''title'', ''description'', ''status'', ''priority'', ''created_at'',
     ''updated_at'', ''assigned_to'', ''due_date'', ''tags'', ''metadata'', ''source'']"

definition str_field :: "json \<Rightarrow> string option" where
  "str_field v = (case v of JStr s \<Rightarrow> Some s | _ \<Rightarrow> None)"

definition assigned_field :: "json option \<Rightarrow> string option option" where
  "assigned_field v =
     (case v of None \<Rightarrow> Some None | Some JNull \<Rightarrow> Some None | Some (JStr a) \<Rightarrow> Some (Some a)
      | _ \<Rightarrow> None)"

fun str_list :: "json list \<Rightarrow> string list option" where
  "str_list [] = Some []"
| "str_list (JStr s # vs) = (case str_list vs of None \<Rightarrow> None | Some ss \<Rightarrow> Some (s # ss))"
| "str_list (_ # vs) = None"

definition tags_field :: "json option \<Rightarrow> string list option" where
  "tags_field v =
     (case v of None \<Rightarrow> Some [] | Some JNull \<Rightarrow> Some [] | Some (JList vs) \<Rightarrow> str_list vs
      | _ \<Rightarrow> None)"

definition metadata_field :: "json option \<Rightarrow> (string \<times> json) list option" where
  "metadata_field v =
     (case v of None \<Rightarrow> Some [] | Some JNull \<Rightarrow> Some [] | Some (JObj m) \<Rightarrow> Some m
      | _ \<Rightarrow> None)"

definition source_field :: "json option \<Rightarrow> string option" where
  "source_field v =
     (case v of None \<Rightarrow> Some ''8090_factory'' | Some (JStr s) \<Rightarrow> Some s | _ \<Rightarrow> None)"

definition construct ::
  "(string \<times> json) list \<Rightarrow> WorkOrderStatus \<Rightarrow> WorkOrderPriority \<Rightarrow> datetime \<Rightarrow> datetime \<Rightarrow>
     datetime option option \<Rightarrow> py_error + WorkOrder" where
  "construct d st p c u due =
     (if \<exists>k \<in> set (map fst d). k \<notin> set field_names then Inl TypeError
      else if map_of d ''id'' = None \<or> map_of d ''title'' = None \<or> map_of d ''description'' = None
      then Inl TypeError
      else
        (case (Option.bind (map_of d ''id'') str_field,
               Option.bind (map_of d ''title'') str_field,
               Option.bind (map_of d ''description'') str_field,
               assigned_field (map_of d ''assigned_to''),
               due,
               tags_field (map_of d ''tags''),
               metadata_field (map_of d ''metadata''),
               source_field (map_of d ''source'')) of
           (Some i, Some t, Some ds, Some a, Some dd, Some tg, Some m, Some src) \<Rightarrow>
             Inr \<lparr>wo_id = i, title = t, description = ds, status = st, priority = p,
                  created_at = c, updated_at = u, assigned_to = a, due_date = dd, tags = tg,
                  metadata = m, source = src\<rparr>
         | _ \<Rightarrow> Inl NotAnnotated))"

text \<open>
  \<^verbatim>\<open>WorkOrder.from_dict\<close>, in the order of its statements. Subscripting anything but a
  dict with a string raises TypeError.
\<close>

definition from_dict :: "(string \<Rightarrow> datetime option) \<Rightarrow> json \<Rightarrow> py_error + WorkOrder" where
  "from_dict fromiso data =
     (case data of
        JObj d \<Rightarrow>
          and_then (and_then (subscript d ''status'') parse_status) (\<lambda>st.
          and_then (and_then (subscript d ''priority'') parse_priority) (\<lambda>p.
          and_then (and_then (subscript d ''created_at'') (parse_isoformat fromiso)) (\<lambda>c.
          and_then (and_then (subscript d ''updated_at'') (parse_isoformat fromiso)) (\<lambda>u.
          and_then (parse_due_date fromiso d) (\<lambda>due.
          construct d st p c u due)))))
      | _ \<Rightarrow> Inl TypeError)"

text \<open>\<^verbatim>\<open>get_statistics\<close>. \<^verbatim>\<open>len\<close> of a dict counts its keys.\<close>

record statistics =
  total_work_orders :: nat
  status_distribution :: "(string \<times> nat) list"
  priority_distribution :: "(string \<times> nat) list"
  assigned_count :: nat
  tags_count :: nat
  search_index_size :: nat

definition get_statistics :: "WorkOrderIndex \<Rightarrow> statistics" where
  "get_statistics s =
     \<lparr>total_work_orders = length (work_orders s),
      status_distribution =
        map (\<lambda>st. (status_value st, length (index_by_status s st))) all_statuses,
      priority_distribution =
        map (\<lambda>p. (priority_value p, length (index_by_priority s p))) all_priorities,
      assigned_count = length (index_by_assigned s),
      tags_count = length (index_by_tags s),
      search_index_size = length (search_index s)\<rparr>"

definition statistics_json :: "statistics \<Rightarrow> json" where
  "statistics_json st = JObj
     [(''total_work_orders'', JInt (int (total_work_orders st))),
      (''status_distribution'',
         JObj (map (\<lambda>(k, n). (k, JInt (int n))) (status_distribution st))),
      (''priority_distribution'',
         JObj (map (\<lambda>(k, n). (k, JInt (int n))) (priority_distribution st))),
      (''assigned_count'', JInt (int (assigned_count st))),
      (''tags_count'', JInt (int (tags_count st))),
      (''search_index_size'', JInt (int (search_index_size st)))]"

text \<open>
  \<^verbatim>\<open>export_to_json\<close> and \<^verbatim>\<open>import_from_json\<close>, on the document that
  \<^verbatim>\<open>json.dumps\<close> prints and \<^verbatim>\<open>json.loads\<close> reads back. \<open>now\<close> is the reading of the
  clock at export.
\<close>

definition export_to_json :: "(datetime \<Rightarrow> string) \<Rightarrow> datetime \<Rightarrow> WorkOrderIndex \<Rightarrow> json" where
  "export_to_json isofmt now s = JObj
     [(''work_orders'', JList (map (\<lambda>(k, wo). to_dict isofmt wo) (work_orders s))),
      (''statistics'', statistics_json (get_statistics s)),
      (''exported_at'', JStr (isofmt now))]"

text \<open>
  \<^verbatim>\<open>for wo_data in data.get("work_orders", [])\<close>: what the loop iterates over. A list
  gives its elements, a string its characters, a dict its keys; \<^verbatim>\<open>None\<close>, a number or
  a boolean is not iterable.
\<close>

definition iterate :: "json \<Rightarrow> py_error + json list" where
  "iterate v =
     (case v of
        JList xs \<Rightarrow> Inr xs
      | JStr cs \<Rightarrow> Inr (map (\<lambda>c. JStr [c]) cs)
      | JObj kvs \<Rightarrow> Inr (map (\<lambda>(k, x). JStr k) kvs)
      | _ \<Rightarrow> Inl TypeError)"

text \<open>
  The loop of \<^verbatim>\<open>import_from_json\<close>. An exception of \<^verbatim>\<open>from_dict\<close> is not caught: it
  ends the loop and leaves the index as the records before have made it.
\<close>

fun import_loop ::
  "(string \<Rightarrow> datetime option) \<Rightarrow> WorkOrderIndex \<Rightarrow> json list \<Rightarrow> py_error option \<times> WorkOrderIndex"
where
  "import_loop fromiso s [] = (None, s)"
| "import_loop fromiso s (wo_data # rest) =
     (case from_dict fromiso wo_data of
        Inl e \<Rightarrow> (Some e, s)
      | Inr work_order \<Rightarrow> import_loop fromiso (add_work_order s work_order) rest)"

definition import_from_json ::
  "(string \<Rightarrow> datetime option) \<Rightarrow> WorkOrderIndex \<Rightarrow> json \<Rightarrow> py_error option \<times> WorkOrderIndex"
where
  "import_from_json fromiso s data =
     (case data of
        JObj d \<Rightarrow>
          (case iterate (case map_of d ''work_orders'' of None \<Rightarrow> JList [] | Some v \<Rightarrow> v) of
             Inl e \<Rightarrow> (Some e, s)
           | Inr items \<Rightarrow> import_loop fromiso s items)
      | _ \<Rightarrow> (Some AttributeError, s))"

text \<open>
  An instance of the two library functions for evaluation: \<^verbatim>\<open>isoformat()\<close> of a naive
  \<^verbatim>\<open>datetime\<close> prints \<^verbatim>\<open>YYYY-MM-DDTHH:MM:SS\<close>, followed by \<^verbatim>\<open>.ffffff\<close> when the
  microsecond is not zero, and \<open>fromisoformat_std\<close> reads these two shapes.
\<close>

fun pad :: "nat \<Rightarrow> nat \<Rightarrow> string" where
  "pad 0 n = []"
| "pad (Suc k) n = pad k (n div 10) @ [char_of (48 + n mod 10)]"

definition isoformat_std :: "datetime \<Rightarrow> string" where
  "isoformat_std t =
     pad 4 (year t) @ ''-'' @ pad 2 (month t) @ ''-'' @ pad 2 (day t) @ ''T'' @
     pad 2 (hour t) @ '':'' @ pad 2 (minute t) @ '':'' @ pad 2 (second t) @
     (if microsecond t = 0 then [] else ''.'' @ pad 6 (microsecond t))"

definition number :: "string \<Rightarrow> nat option" where
  "number cs =
     (if cs \<noteq> [] \<and> (\<forall>c \<in> set cs. 48 \<le> ord c \<and> ord c \<le> 57)
      then Some (foldl (\<lambda>n c. 10 * n + (ord c - 48)) 0 cs) else None)"

definition fromisoformat_std :: "string \<Rightarrow> datetime option" where
  "fromisoformat_std s =
     (if (length s = 19 \<or> length s = 26 \<and> s ! 19 = CHR ''.'') \<and>
         s ! 4 = CHR ''-'' \<and> s ! 7 = CHR ''-'' \<and> s ! 10 = CHR ''T'' \<and>
         s ! 13 = CHR '':'' \<and> s ! 16 = CHR '':''
      then
        (case (number (take 4 s), number (take 2 (drop 5 s)), number (take 2 (drop 8 s)),
               number (take 2 (drop 11 s)), number (take 2 (drop 14 s)),
               number (take 2 (drop 17 s)),
               (if length s = 19 then Some 0 else number (drop 20 s))) of
           (Some y, Some mo, Some d, Some h, Some mi, Some sec, Some us) \<Rightarrow>
             if 1 \<le> y \<and> 1 \<le> mo \<and> mo \<le> 12 \<and> 1 \<le> d \<and> d \<le> 31 \<and> h < 24 \<and> mi < 60 \<and> sec < 60
             then Some \<lparr>year = y, month = mo, day = d, hour = h, minute = mi, second = sec,
                        microsecond = us\<rparr>
             else None
         | _ \<Rightarrow> None)
      else None)"

text \<open>
  The contract of the library that the round trip relies on: \<^verbatim>\<open>isoformat()\<close> prints a
  non-empty string that \<^verbatim>\<open>fromisoformat\<close> reads back as the same value.
\<close>

definition iso_round_trip ::
  "(datetime \<Rightarrow> string) \<Rightarrow> (string \<Rightarrow> datetime option) \<Rightarrow> datetime \<Rightarrow> bool" where
  "iso_round_trip isofmt fromiso t \<longleftrightarrow> isofmt t \<noteq> [] \<and> fromiso (isofmt t) = Some t"

definition timestamps_round_trip ::
  "(datetime \<Rightarrow> string) \<Rightarrow> (string \<Rightarrow> datetime option) \<Rightarrow> WorkOrder \<Rightarrow> bool" where
  "timestamps_round_trip isofmt fromiso wo \<longleftrightarrow>
     iso_round_trip isofmt fromiso (created_at wo) \<and>
     iso_round_trip isofmt fromiso (updated_at wo) \<and>
     (case due_date wo of None \<Rightarrow> True | Some t \<Rightarrow> iso_round_trip isofmt fromiso t)"

text \<open>
  A record of a document with an unparsable enum value or timestamp: a \<^verbatim>\<open>status\<close> or
  \<^verbatim>\<open>priority\<close> string that is the value of no member, or a \<^verbatim>\<open>created_at\<close>,
  \<^verbatim>\<open>updated_at\<close> or (non-empty) \<^verbatim>\<open>due_date\<close> string that \<^verbatim>\<open>fromisoformat\<close> rejects.
\<close>

definition unparsable_record :: "(string \<Rightarrow> datetime option) \<Rightarrow> (string \<times> json) list \<Rightarrow> bool" where
  "unparsable_record fromiso r \<longleftrightarrow>
     (case map_of r ''status'' of Some (JStr v) \<Rightarrow> status_of_value v = None | _ \<Rightarrow> False) \<or>
     (case map_of r ''priority'' of Some (JStr v) \<Rightarrow> priority_of_value v = None | _ \<Rightarrow> False) \<or>
     (case map_of r ''created_at'' of Some (JStr v) \<Rightarrow> fromiso v = None | _ \<Rightarrow> False) \<or>
     (case map_of r ''updated_at'' of Some (JStr v) \<Rightarrow> fromiso v = None | _ \<Rightarrow> False) \<or>
     (case map_of r ''due_date'' of Some (JStr v) \<Rightarrow> v \<noteq> [] \<and> fromiso v = None | _ \<Rightarrow> False)"

text \<open>A well-typed record whose status is the value of no member.\<close>

definition bogus_status_record :: json where
  "bogus_status_record = JObj
     [(''id'', JStr ''wo_9''), (''title'', JStr ''Broken''), (''description'', JStr []),
      (''status'', JStr ''bogus''), (''priority'', JStr ''low''),
      (''created_at'', JStr ''2024-05-17T09:30:00''),
      (''updated_at'', JStr ''2024-05-17T09:30:00''),
      (''assigned_to'', JNull), (''due_date'', JNull), (''tags'', JList []),
      (''metadata'', JObj []), (''source'', JStr ''8090_factory'')]"

section \<open>Discovery: from raw data to work orders\<close>

text \<open>
  \<^verbatim>\<open>WorkOrderDiscovery._create_work_order_from_data\<close> of \<^verbatim>\<open>work_order_indexer.py\<close>.
  What it uses of the Python library is a parameter: the MD5 hex digest of a string,
  \<^verbatim>\<open>repr\<close> of a list or dict, \<^verbatim>\<open>datetime.fromtimestamp\<close> and \<^verbatim>\<open>datetime.strptime\<close>
  (\<open>None\<close> when they raise), and \<^verbatim>\<open>dateutil.parser.parse\<close>, which may not be
  installed (\<open>None\<close>) and raises (\<open>None\<close> again) on a string it cannot parse.
\<close>

record pylib =
  md5_hexdigest :: "string \<Rightarrow> string"
  repr :: "json \<Rightarrow> string"
  fromtimestamp :: "int \<Rightarrow> datetime option"
  strptime :: "string \<Rightarrow> string \<Rightarrow> datetime option"
  dateutil_parse :: "(string \<Rightarrow> datetime option) option"

text \<open>
  The three \<^verbatim>\<open>_parse_timestamp\<close> calls may each read the clock with
  \<^verbatim>\<open>datetime.now()\<close>: the readings at these three moments.
\<close>

record clock =
  at_created :: datetime
  at_updated :: datetime
  at_due :: datetime

text \<open>
  The \<^verbatim>\<open>WorkOrder\<close> instance as discovery builds it. The dataclass does not check its
  annotations, so \<^verbatim>\<open>title\<close>, \<^verbatim>\<open>description\<close>, \<^verbatim>\<open>assigned_to\<close> and the elements of
  \<^verbatim>\<open>tags\<close> are whatever the raw data held.
\<close>

record RawWorkOrder =
  raw_id :: string
  raw_title :: json
  raw_description :: json
  raw_status :: WorkOrderStatus
  raw_priority :: WorkOrderPriority
  raw_created_at :: datetime
  raw_updated_at :: datetime
  raw_assigned_to :: json
  raw_due_date :: "datetime option"
  raw_tags :: "json list"
  raw_metadata :: "(string \<times> json) list"
  raw_source :: string

text \<open>\<^verbatim>\<open>str(n)\<close> for an integer, and \<^verbatim>\<open>str(v)\<close> for a JSON-like value.\<close>

function decimal :: "nat \<Rightarrow> string" where
  "decimal n =
     (if n < 10 then [char_of (48 + n)] else decimal (n div 10) @ [char_of (48 + n mod 10)])"
  by pat_completeness auto

termination
  by (relation "measure (\<lambda>n. n)") auto

definition py_str :: "pylib \<Rightarrow> json \<Rightarrow> string" where
  "py_str L v =
     (case v of
        JNull \<Rightarrow> ''None''
      | JBool b \<Rightarrow> (if b then ''True'' else ''False'')
      | JInt n \<Rightarrow> (if n < 0 then ''-'' @ decimal (nat (- n)) else decimal (nat n))
      | JStr s \<Rightarrow> s
      | _ \<Rightarrow> repr L v)"

text \<open>
  \<^verbatim>\<open>data.get(k1, data.get(k2, data.get(k3, dflt)))\<close>: the value under the first of
  the keys that is present, whatever it is.
\<close>

definition get2 :: "(string \<times> json) list \<Rightarrow> string \<Rightarrow> string \<Rightarrow> json \<Rightarrow> json" where
  "get2 d k1 k2 dflt =
     (case map_of d k1 of Some v \<Rightarrow> v
      | None \<Rightarrow> (case map_of d k2 of Some v \<Rightarrow> v | None \<Rightarrow> dflt))"

definition get3 :: "(string \<times> json) list \<Rightarrow> string \<Rightarrow> string \<Rightarrow> string \<Rightarrow> json \<Rightarrow> json" where
  "get3 d k1 k2 k3 dflt =
     (case map_of d k1 of Some v \<Rightarrow> v | None \<Rightarrow> get2 d k2 k3 dflt)"

text \<open>The two literal alias tables.\<close>

definition status_mapping :: "(string \<times> WorkOrderStatus) list" where
  "status_mapping =
     [(''queued'', QUEUED), (''pending'', QUEUED), (''in_progress'', IN_PROGRESS),
      (''active'', IN_PROGRESS), (''completed'', COMPLETED), (''done'', COMPLETED),
      (''failed'', FAILED), (''error'', FAILED), (''cancelled'', CANCELLED),
      (''cancelled'', CANCELLED), (''on_hold'', ON_HOLD), (''paused'', ON_HOLD)]"

definition priority_mapping :: "(string \<times> WorkOrderPriority) list" where
  "priority_mapping =
     [(''low'', LOW), (''medium'', MEDIUM), (''high'', HIGH), (''urgent'', URGENT),
      (''critical'', CRITICAL)]"

text \<open>\<^verbatim>\<open>value.lower()\<close>: AttributeError unless the value is a string.\<close>

definition lower_of :: "json \<Rightarrow> py_error + string" where
  "lower_of v = (case v of JStr s \<Rightarrow> Inr (lower s) | _ \<Rightarrow> Inl AttributeError)"

text \<open>
  \<^verbatim>\<open>_parse_timestamp\<close>. A falsy value gives the clock reading. A number (\<^verbatim>\<open>True\<close> is
  the integer 1) goes to \<^verbatim>\<open>fromtimestamp\<close>, whose exception is not caught here
  (OverflowError, OSError or ValueError; the model records OverflowError for all three). A
  string is tried against the five formats in order, then handed to \<^verbatim>\<open>dateutil\<close>,
  where only a failing import is caught. Everything else gives the clock reading.
\<close>

definition formats :: "string list" where
  "formats = [''%Y-%m-%dT%H:%M:%S.%fZ'', ''%Y-%m-%dT%H:%M:%SZ'', ''%Y-%m-%dT%H:%M:%S'',
     ''%Y-%m-%d %H:%M:%S'', ''%Y-%m-%d'']"

fun try_formats :: "pylib \<Rightarrow> string \<Rightarrow> string list \<Rightarrow> datetime option" where
  "try_formats L s [] = None"
| "try_formats L s (fmt # fmts) =
     (case strptime L s fmt of Some t \<Rightarrow> Some t | None \<Rightarrow> try_formats L s fmts)"

definition from_unix :: "pylib \<Rightarrow> int \<Rightarrow> py_error + datetime" where
  "from_unix L n = (case fromtimestamp L n of None \<Rightarrow> Inl OverflowError | Some t \<Rightarrow> Inr t)"

definition parse_timestamp :: "pylib \<Rightarrow> datetime \<Rightarrow> json \<Rightarrow> py_error + datetime" where
  "parse_timestamp L now v =
     (if \<not> truthy v then Inr now
      else
        (case v of
           JBool b \<Rightarrow> from_unix L 1
         | JInt n \<Rightarrow> from_unix L n
         | JStr s \<Rightarrow>
             (case try_formats L s formats of
                Some t \<Rightarrow> Inr t
              | None \<Rightarrow>
                  (case dateutil_parse L of
                     None \<Rightarrow> Inr now
                   | Some parse \<Rightarrow>
                       (case parse s of None \<Rightarrow> Inl ValueError | Some t \<Rightarrow> Inr t)))
         | _ \<Rightarrow> Inr now))"

text \<open>
  \<^verbatim>\<open>tags.split(",")\<close> and \<^verbatim>\<open>tag.strip()\<close>, with the ASCII whitespace characters.
\<close>

fun split_from :: "char \<Rightarrow> string \<Rightarrow> string \<Rightarrow> string list" where
  "split_from sep cur [] = [cur]"
| "split_from sep cur (c # cs) =
     (if c = sep then cur # split_from sep [] cs else split_from sep (cur @ [c]) cs)"

definition is_space :: "char \<Rightarrow> bool" where
  "is_space c \<longleftrightarrow> ord c = 32 \<or> (9 \<le> ord c \<and> ord c \<le> 13) \<or> (28 \<le> ord c \<and> ord c \<le> 31)"

definition strip :: "string \<Rightarrow> string" where
  "strip s = rev (dropWhile is_space (rev (dropWhile is_space s)))"

definition extract_tags :: "json \<Rightarrow> json list" where
  "extract_tags v =
     (case v of
        JStr s \<Rightarrow> map (\<lambda>tag. JStr (strip tag)) (split_from CHR '','' [] s)
      | JList xs \<Rightarrow> xs
      | _ \<Rightarrow> [])"

text \<open>The assignee: a non-empty dict is replaced by its name, else its email, else its text.\<close>

definition extract_assigned_to :: "pylib \<Rightarrow> json \<Rightarrow> json" where
  "extract_assigned_to L v =
     (case v of
        JObj a \<Rightarrow> (if a \<noteq> [] then get2 a ''name'' ''email'' (JStr (py_str L v)) else v)
      | _ \<Rightarrow> v)"

definition consumed_keys :: "string list" where
  "consumed_keys = [''id'', ''title'', ''description'', ''status'', ''priority'', ''created_at'',
     ''updated_at'', ''due_date'', ''assigned_to'', ''tags'']"

definition extract_metadata :: "(string \<times> json) list \<Rightarrow> string \<Rightarrow> (string \<times> json) list" where
  "extract_metadata d source_url =
     AList.update ''source_url'' (JStr source_url)
       (filter (\<lambda>(k, v). k \<notin> set consumed_keys) d)"

text \<open>
  The body of the \<^verbatim>\<open>try\<close> block, statement by statement. \<^verbatim>\<open>data.get\<close> on anything
  but a dict raises AttributeError.
\<close>

definition extract_id :: "pylib \<Rightarrow> (string \<times> json) list \<Rightarrow> string" where
  "extract_id L d =
     (let wo_id = py_str L (get3 d ''id'' ''_id'' ''work_order_id'' (JStr []))
      in if wo_id = [] then take 12 (md5_hexdigest L (py_str L (JObj d))) else wo_id)"

definition create_body :: "pylib \<Rightarrow> clock \<Rightarrow> string \<Rightarrow> json \<Rightarrow> py_error + RawWorkOrder" where
  "create_body L c source_url data =
     (case data of
        JObj d \<Rightarrow>
          and_then (lower_of (get2 d ''status'' ''state'' (JStr ''queued''))) (\<lambda>status_str.
          and_then (lower_of (get2 d ''priority'' ''urgency'' (JStr ''medium''))) (\<lambda>priority_str.
          and_then (parse_timestamp L (at_created c)
                      (get3 d ''created_at'' ''created'' ''timestamp'' JNull)) (\<lambda>created.
          and_then (parse_timestamp L (at_updated c)
                      (get3 d ''updated_at'' ''updated'' ''modified'' JNull)) (\<lambda>updated.
          and_then (parse_timestamp L (at_due c)
                      (get3 d ''due_date'' ''deadline'' ''due'' JNull)) (\<lambda>due.
          Inr \<lparr>raw_id = extract_id L d,
               raw_title = get3 d ''title'' ''name'' ''subject'' (JStr ''Untitled Work Order''),
               raw_description = get3 d ''description'' ''details'' ''summary'' (JStr []),
               raw_status =
                 (case map_of status_mapping status_str of None \<Rightarrow> QUEUED | Some st \<Rightarrow> st),
               raw_priority =
                 (case map_of priority_mapping priority_str of None \<Rightarrow> MEDIUM | Some p \<Rightarrow> p),
               raw_created_at = created,
               raw_updated_at = updated,
               raw_assigned_to =
                 extract_assigned_to L (get3 d ''assigned_to'' ''assignee'' ''owner'' JNull),
               raw_due_date = Some due,
               raw_tags = extract_tags (get3 d ''tags'' ''labels'' ''categories'' (JList [])),
               raw_metadata = extract_metadata d source_url,
               raw_source = ''8090_factory''\<rparr>)))))
      | _ \<Rightarrow> Inl AttributeError)"

text \<open>
  \<^verbatim>\<open>_create_work_order_from_data\<close>: the \<^verbatim>\<open>try\<close> block with its handler, which logs the
  exception together with the raw data and returns \<^verbatim>\<open>None\<close>. The second component is
  what the call logs.
\<close>

datatype log_record =
  Created string json
| Failed py_error json

definition create_work_order_from_data ::
  "pylib \<Rightarrow> clock \<Rightarrow> string \<Rightarrow> json \<Rightarrow> RawWorkOrder option \<times> log_record" where
  "create_work_order_from_data L c source_url data =
     (case create_body L c source_url data of
        Inl e \<Rightarrow> (None, Failed e data)
      | Inr work_order \<Rightarrow> (Some work_order, Created (raw_id work_order) (raw_title work_order)))"

text \<open>
  \<^verbatim>\<open>_extract_work_orders_from_dict\<close>: for each pattern that is a key with a list value,
  every item of the list is passed to \<^verbatim>\<open>_create_work_order_from_data\<close>, and the work
  orders that come back are collected. \<open>clocks n\<close> holds the clock readings of the
  \<open>n\<close>-th call, counted from the number given.
\<close>

definition work_order_patterns :: "string list" where
  "work_order_patterns = [''work_orders'', ''workOrders'', ''tasks'', ''jobs'', ''orders'',
     ''queue'', ''pending'', ''assigned'', ''work_items'']"

fun create_each ::
  "pylib \<Rightarrow> (nat \<Rightarrow> clock) \<Rightarrow> string \<Rightarrow> nat \<Rightarrow> json list \<Rightarrow> RawWorkOrder list \<times> log_record list"
where
  "create_each L clocks source_url n [] = ([], [])"
| "create_each L clocks source_url n (item # items) =
     (let (work_order, logged) = create_work_order_from_data L (clocks n) source_url item;
          (work_orders, log) = create_each L clocks source_url (Suc n) items
      in ((case work_order of None \<Rightarrow> work_orders | Some wo \<Rightarrow> wo # work_orders),
          logged # log))"

fun extract_patterns ::
  "pylib \<Rightarrow> (nat \<Rightarrow> clock) \<Rightarrow> string \<Rightarrow> (string \<times> json) list \<Rightarrow> nat \<Rightarrow> string list \<Rightarrow>
     RawWorkOrder list \<times> log_record list"
where
  "extract_patterns L clocks source_url data n [] = ([], [])"
| "extract_patterns L clocks source_url data n (pattern # patterns) =
     (case map_of data pattern of
        Some (JList items) \<Rightarrow>
          (let (work_orders, log) = create_each L clocks source_url n items;
               (more, more_log) =
                 extract_patterns L clocks source_url data (n + length items) patterns
           in (work_orders @ more, log @ more_log))
      | _ \<Rightarrow> extract_patterns L clocks source_url data n patterns)"

definition extract_work_orders_from_dict ::
  "pylib \<Rightarrow> (nat \<Rightarrow> clock) \<Rightarrow> string \<Rightarrow> (string \<times> json) list \<Rightarrow>
     RawWorkOrder list \<times> log_record list" where
  "extract_work_orders_from_dict L clocks source_url data =
     extract_patterns L clocks source_url data 0 work_order_patterns"

text \<open>
  All items of a batch, in the order in which \<^verbatim>\<open>_extract_work_orders_from_dict\<close> meets
  them, and what one call contributes to the result.
\<close>

definition batch_items :: "(string \<times> json) list \<Rightarrow> json list" where
  "batch_items data =
     concat (map (\<lambda>pattern. case map_of data pattern of Some (JList items) \<Rightarrow> items | _ \<Rightarrow> [])
       work_order_patterns)"

definition created_of ::
  "pylib \<Rightarrow> (nat \<Rightarrow> clock) \<Rightarrow> string \<Rightarrow> (nat \<times> json) list \<Rightarrow> RawWorkOrder list" where
  "created_of L clocks source_url numbered =
     List.map_filter
       (\<lambda>(n, item). fst (create_work_order_from_data L (clocks n) source_url item)) numbered"

text \<open>
  No parse attempt of \<^verbatim>\<open>_parse_timestamp\<close> yields a time for this value: it is falsy,
  or a number that \<^verbatim>\<open>fromtimestamp\<close> rejects, or a string that matches none of the
  formats and that \<^verbatim>\<open>dateutil\<close>, if installed, rejects as well, or neither a number nor
  a string.
\<close>

definition no_parse :: "pylib \<Rightarrow> json \<Rightarrow> bool" where
  "no_parse L v \<longleftrightarrow>
     \<not> truthy v \<or>
     (case v of
        JBool b \<Rightarrow> fromtimestamp L 1 = None
      | JInt n \<Rightarrow> fromtimestamp L n = None
      | JStr s \<Rightarrow>
          try_formats L s formats = None \<and>
          (case dateutil_parse L of None \<Rightarrow> True | Some parse \<Rightarrow> parse s = None)
      | _ \<Rightarrow> True)"

text \<open>
  The two ways in which no parse attempt of \<^verbatim>\<open>_parse_timestamp\<close> yields a time. The
  value falls through to the last line: it is falsy, or neither a number nor a string, or
  a string that matches none of the formats while \<^verbatim>\<open>dateutil\<close> is not installed. Or an
  attempt raises: \<^verbatim>\<open>fromtimestamp\<close> rejects the number, or the string matches none of
  the formats and the installed \<^verbatim>\<open>dateutil\<close> rejects it.
\<close>

definition falls_through :: "pylib \<Rightarrow> json \<Rightarrow> bool" where
  "falls_through L v \<longleftrightarrow>
     \<not> truthy v \<or>
     (case v of
        JStr s \<Rightarrow> try_formats L s formats = None \<and> dateutil_parse L = None
      | JList xs \<Rightarrow> True
      | JObj kvs \<Rightarrow> True
      | _ \<Rightarrow> False)"

definition parse_raises :: "pylib \<Rightarrow> json \<Rightarrow> bool" where
  "parse_raises L v \<longleftrightarrow>
     truthy v \<and>
     (case v of
        JBool b \<Rightarrow> fromtimestamp L 1 = None
      | JInt n \<Rightarrow> fromtimestamp L n = None
      | JStr s \<Rightarrow>
          try_formats L s formats = None \<and>
          (case dateutil_parse L of None \<Rightarrow> False | Some parse \<Rightarrow> parse s = None)
      | _ \<Rightarrow> False)"

text \<open>
  The raw mapping of the documented scenario, a record whose status is a number, and a
  stand-in for the library to evaluate the model with: a digest of 32 hexadecimal digits
  (not MD5), \<^verbatim>\<open>fromtimestamp\<close> for the first day of the epoch, \<^verbatim>\<open>strptime\<close> for the
  third format, no \<^verbatim>\<open>dateutil\<close>.
\<close>

definition untitled_task :: json where
  "untitled_task = JObj
     [(''name'', JStr ''Untitled task''), (''state'', JStr ''active''),
      (''urgency'', JStr ''urgent'')]"

definition numeric_status_task :: json where
  "numeric_status_task = JObj [(''id'', JStr ''t-2''), (''status'', JInt 3)]"

definition hex_digit :: "nat \<Rightarrow> char" where
  "hex_digit n = (if n mod 16 < 10 then char_of (48 + n mod 16) else char_of (87 + n mod 16))"

definition example_lib :: pylib where
  "example_lib =
     \<lparr>md5_hexdigest = (\<lambda>s. map (\<lambda>k. hex_digit (sum_list (map ord s) + k)) [0..<32]),
      repr = (\<lambda>v. ''{...}''),
      fromtimestamp = (\<lambda>n. if 0 \<le> n \<and> n < 86400
         then Some \<lparr>year = 1970, month = 1, day = 1, hour = nat n div 3600,
                    minute = nat n div 60 mod 60, second = nat n mod 60, microsecond = 0\<rparr>
         else None),
      strptime = (\<lambda>s fmt. if fmt = ''%Y-%m-%dT%H:%M:%S'' \<and> length s = 19
         then fromisoformat_std s else None),
      dateutil_parse = None\<rparr>"

definition example_clock :: clock where
  "example_clock = \<lparr>at_created = example_time, at_updated = example_time,
     at_due = example_time\<lparr>microsecond := 7\<rparr>\<rparr>"

section \<open>Lemmas about sequences of additions\<close>

lemma add_all_Nil: "add_all s [] = s"
  by (simp add: add_all_def)

lemma add_all_snoc: "add_all s (wos @ [wo]) = add_work_order (add_all s wos) wo"
  by (simp add: add_all_def)

lemma work_orders_add:
  "work_orders (add_work_order s wo) = AList.update (wo_id wo) wo (work_orders s)"
  by (simp add: add_work_order_def update_search_index_def Let_def split: option.splits)

lemma index_by_status_add:
  "index_by_status (add_work_order s wo) =
     (index_by_status s)(status wo := index_by_status s (status wo) @ [wo_id wo])"
  by (simp add: add_work_order_def update_search_index_def Let_def split: option.splits)

lemma index_by_priority_add:
  "index_by_priority (add_work_order s wo) =
     (index_by_priority s)(priority wo := index_by_priority s (priority wo) @ [wo_id wo])"
  by (simp add: add_work_order_def update_search_index_def Let_def split: option.splits)

lemma index_by_assigned_add:
  "index_by_assigned (add_work_order s wo) =
     (case assigned_to wo of None \<Rightarrow> index_by_assigned s
      | Some a \<Rightarrow> if a = [] then index_by_assigned s
                  else append_to_bucket a (wo_id wo) (index_by_assigned s))"
  by (simp add: add_work_order_def update_search_index_def Let_def split: option.splits)

lemma index_by_tags_add:
  "index_by_tags (add_work_order s wo) =
     foldl (\<lambda>d tag. append_to_bucket tag (wo_id wo) d) (index_by_tags s) (tags wo)"
  by (simp add: add_work_order_def update_search_index_def Let_def split: option.splits)


lemma bucket_append_to_bucket:
  "bucket (append_to_bucket k x d) k' = (if k' = k then bucket d k @ [x] else bucket d k')"
  by (simp add: bucket_def append_to_bucket_def update_conv')

lemma bucket_fold_tags:
  "bucket (foldl (\<lambda>d tag. append_to_bucket tag i d) d ts) t =
     bucket d t @ map (\<lambda>x. i) (filter (\<lambda>x. x = t) ts)"
  by (induction ts arbitrary: d) (simp_all add: bucket_append_to_bucket)

lemma init_fields [simp]:
  "work_orders init_index = []" "index_by_status init_index st = []"
  "index_by_priority init_index p = []" "index_by_assigned init_index = []"
  "index_by_tags init_index = []" "search_index init_index = []"
  by (simp_all add: init_index_def)

lemma bucket_Nil [simp]: "bucket [] k = []"
  by (simp add: bucket_def)

lemma get_add_all:
  "get_work_order (add_all init_index wos) i = last_added wos i"
  by (induction wos rule: rev_induct)
     (simp_all add: add_all_Nil add_all_snoc get_work_order_def work_orders_add update_conv'
        last_added_def)

lemma status_add_all:
  "index_by_status (add_all init_index wos) st = map wo_id (filter (\<lambda>w. status w = st) wos)"
  by (induction wos arbitrary: st rule: rev_induct)
     (simp_all add: add_all_Nil add_all_snoc index_by_status_add)

lemma priority_add_all:
  "index_by_priority (add_all init_index wos) p = map wo_id (filter (\<lambda>w. priority w = p) wos)"
  by (induction wos arbitrary: p rule: rev_induct)
     (simp_all add: add_all_Nil add_all_snoc index_by_priority_add)

lemma assigned_add_all:
  "bucket (index_by_assigned (add_all init_index wos)) a =
     map wo_id (filter (\<lambda>w. a \<noteq> [] \<and> assigned_to w = Some a) wos)"
  by (induction wos arbitrary: a rule: rev_induct)
     (auto simp: add_all_Nil add_all_snoc index_by_assigned_add
        bucket_append_to_bucket split: option.splits)

lemma tags_add_all:
  "bucket (index_by_tags (add_all init_index wos)) t =
     concat (map (\<lambda>w. map (\<lambda>x. wo_id w) (filter (\<lambda>x. x = t) (tags w))) wos)"
  by (induction wos arbitrary: t rule: rev_induct)
     (simp_all add: add_all_Nil add_all_snoc index_by_tags_add
        bucket_fold_tags)

lemma find_SomeD: "find P xs = Some x \<Longrightarrow> P x \<and> x \<in> set xs"
  by (induction xs) (auto split: if_splits)

lemma last_added_SomeD: "last_added wos i = Some w \<Longrightarrow> w \<in> set wos \<and> wo_id w = i"
  using find_SomeD [of "\<lambda>w. wo_id w = i" "rev wos" w] by (simp add: last_added_def)

lemma last_added_None: "last_added wos i = None \<longleftrightarrow> i \<notin> wo_id ` set wos"
  by (auto simp: last_added_def find_None_iff)

lemma last_added_distinct:
  "distinct (map wo_id wos) \<Longrightarrow> w \<in> set wos \<Longrightarrow> last_added wos (wo_id w) = Some w"
proof -
  assume d: "distinct (map wo_id wos)" and m: "w \<in> set wos"
  obtain w' where w': "last_added wos (wo_id w) = Some w'"
    using m by (cases "last_added wos (wo_id w)") (auto simp: last_added_None)
  then have "w' \<in> set wos" "wo_id w' = wo_id w"
    using last_added_SomeD by blast+
  with d m have "w' = w"
    by (auto simp: distinct_map dest: inj_onD)
  with w' show ?thesis by simp
qed




lemma distinct_keys_add_all: "distinct (map fst (work_orders (add_all init_index wos)))"
  by (induction wos rule: rev_induct)
     (simp_all add: add_all_Nil add_all_snoc work_orders_add distinct_update)

lemma stored_iff:
  "w \<in> snd ` set (work_orders (add_all init_index wos)) \<longleftrightarrow>
     (\<exists>i. get_work_order (add_all init_index wos) i = Some w)"
proof
  assume "w \<in> snd ` set (work_orders (add_all init_index wos))"
  then obtain i where "(i, w) \<in> set (work_orders (add_all init_index wos))" by auto
  then have "map_of (work_orders (add_all init_index wos)) i = Some w"
    using distinct_keys_add_all by simp
  then show "\<exists>i. get_work_order (add_all init_index wos) i = Some w"
    by (auto simp: get_work_order_def)
next
  assume "\<exists>i. get_work_order (add_all init_index wos) i = Some w"
  then obtain i where "map_of (work_orders (add_all init_index wos)) i = Some w"
    by (auto simp: get_work_order_def)
  then have "(i, w) \<in> set (work_orders (add_all init_index wos))"
    by (rule map_of_SomeD)
  then show "w \<in> snd ` set (work_orders (add_all init_index wos))"
    by force
qed


lemma last_added_iff:
  "distinct (map wo_id wos) \<Longrightarrow>
     last_added wos i = Some w \<longleftrightarrow> w \<in> set wos \<and> wo_id w = i"
  using last_added_SomeD last_added_distinct by blast

lemma mem_ids_filter:
  "i \<in> set (map wo_id (filter P wos)) \<longleftrightarrow> (\<exists>w \<in> set wos. wo_id w = i \<and> P w)"
  by auto

lemma mem_ids_tags:
  "i \<in> set (concat (map (\<lambda>w. map (\<lambda>x. wo_id w) (filter (\<lambda>x. x = t) (tags w))) wos)) \<longleftrightarrow>
     (\<exists>w \<in> set wos. wo_id w = i \<and> t \<in> set (tags w))"
  by auto

lemma distinct_ids_filter:
  "distinct (map wo_id wos) \<Longrightarrow> distinct (map wo_id (filter P wos))"
  by (simp add: distinct_map_filter)

section \<open>Uniqueness of ids and the secondary indexes\<close>

text \<open>
  Claim C1, as the code has it. After any sequence of \<^verbatim>\<open>add_work_order\<close> calls on a
  fresh index, \<^verbatim>\<open>get_work_order(id)\<close> returns the record added last under that id.
  The secondary indexes only ever grow: the bucket of a status, priority, assignee or tag
  lists the ids of all calls whose record carried that key, in call order, so an id that
  is added again keeps the memberships of its earlier records. When every id is added at
  most once, an id is in a bucket exactly when the stored record carries the bucket's key,
  and no status, priority or assignee bucket repeats an id.
\<close>

theorem add_sequence_get_and_memberships:
  assumes "s = add_all init_index wos"
  shows "get_work_order s i = last_added wos i \<and>
    index_by_status s st = map wo_id (filter (\<lambda>w. status w = st) wos) \<and>
    index_by_priority s p = map wo_id (filter (\<lambda>w. priority w = p) wos) \<and>
    bucket (index_by_assigned s) a =
      map wo_id (filter (\<lambda>w. a \<noteq> [] \<and> assigned_to w = Some a) wos) \<and>
    bucket (index_by_tags s) t =
      concat (map (\<lambda>w. map (\<lambda>x. wo_id w) (filter (\<lambda>x. x = t) (tags w))) wos) \<and>
    (distinct (map wo_id wos) \<longrightarrow>
       (i \<in> set (index_by_status s st) \<longleftrightarrow>
          (\<exists>w. get_work_order s i = Some w \<and> status w = st)) \<and>
       (i \<in> set (index_by_priority s p) \<longleftrightarrow>
          (\<exists>w. get_work_order s i = Some w \<and> priority w = p)) \<and>
       (i \<in> set (bucket (index_by_assigned s) a) \<longleftrightarrow>
          (\<exists>w. get_work_order s i = Some w \<and> a \<noteq> [] \<and> assigned_to w = Some a)) \<and>
       (i \<in> set (bucket (index_by_tags s) t) \<longleftrightarrow>
          (\<exists>w. get_work_order s i = Some w \<and> t \<in> set (tags w))) \<and>
       distinct (index_by_status s st) \<and> distinct (index_by_priority s p) \<and>
       distinct (bucket (index_by_assigned s) a))"
proof -
  have g: "get_work_order s i = last_added wos i"
    using assms by (simp add: get_add_all)
  have st: "index_by_status s st = map wo_id (filter (\<lambda>w. status w = st) wos)"
    using assms by (simp add: status_add_all)
  have pr: "index_by_priority s p = map wo_id (filter (\<lambda>w. priority w = p) wos)"
    using assms by (simp add: priority_add_all)
  have asg: "bucket (index_by_assigned s) a =
      map wo_id (filter (\<lambda>w. a \<noteq> [] \<and> assigned_to w = Some a) wos)"
    using assms by (simp add: assigned_add_all)
  have tg: "bucket (index_by_tags s) t =
      concat (map (\<lambda>w. map (\<lambda>x. wo_id w) (filter (\<lambda>x. x = t) (tags w))) wos)"
    using assms by (simp add: tags_add_all)
  have uniq: "(i \<in> set (index_by_status s st) \<longleftrightarrow>
          (\<exists>w. get_work_order s i = Some w \<and> status w = st)) \<and>
       (i \<in> set (index_by_priority s p) \<longleftrightarrow>
          (\<exists>w. get_work_order s i = Some w \<and> priority w = p)) \<and>
       (i \<in> set (bucket (index_by_assigned s) a) \<longleftrightarrow>
          (\<exists>w. get_work_order s i = Some w \<and> a \<noteq> [] \<and> assigned_to w = Some a)) \<and>
       (i \<in> set (bucket (index_by_tags s) t) \<longleftrightarrow>
          (\<exists>w. get_work_order s i = Some w \<and> t \<in> set (tags w))) \<and>
       distinct (index_by_status s st) \<and> distinct (index_by_priority s p) \<and>
       distinct (bucket (index_by_assigned s) a)"
    if d: "distinct (map wo_id wos)"
  proof -
    have l: "\<And>w. last_added wos i = Some w \<longleftrightarrow> w \<in> set wos \<and> wo_id w = i"
      using last_added_iff [OF d] .
    have 1: "i \<in> set (index_by_status s st) \<longleftrightarrow>
          (\<exists>w. get_work_order s i = Some w \<and> status w = st)"
      unfolding g st mem_ids_filter l by blast
    have 2: "i \<in> set (index_by_priority s p) \<longleftrightarrow>
          (\<exists>w. get_work_order s i = Some w \<and> priority w = p)"
      unfolding g pr mem_ids_filter l by blast
    have 3: "i \<in> set (bucket (index_by_assigned s) a) \<longleftrightarrow>
          (\<exists>w. get_work_order s i = Some w \<and> a \<noteq> [] \<and> assigned_to w = Some a)"
      unfolding g asg mem_ids_filter l by blast
    have 4: "i \<in> set (bucket (index_by_tags s) t) \<longleftrightarrow>
          (\<exists>w. get_work_order s i = Some w \<and> t \<in> set (tags w))"
      unfolding g tg mem_ids_tags l by blast
    have 5: "distinct (index_by_status s st)" "distinct (index_by_priority s p)"
      "distinct (bucket (index_by_assigned s) a)"
      unfolding st pr asg using d by (simp_all add: distinct_ids_filter)
    from 1 2 3 4 5 show ?thesis by blast
  qed
  from g st pr asg tg uniq show ?thesis by blast
qed

theorem add_sequence_get_and_memberships_witness:
  "get_work_order (add_all init_index [wo_login, wo_dashboard]) ''wo_2'' = Some wo_dashboard \<and>
   index_by_status (add_all init_index [wo_login, wo_dashboard]) IN_PROGRESS = [''wo_2''] \<and>
   ''wo_2'' \<notin> set (index_by_status (add_all init_index [wo_login, wo_dashboard]) QUEUED) \<and>
   bucket (index_by_tags (add_all init_index [wo_login, wo_dashboard])) ''feature'' = [''wo_2'']"
proof -
  have d: "distinct (map wo_id [wo_login, wo_dashboard])"
    by (simp add: wo_login_def wo_dashboard_def)
  have l: "last_added [wo_login, wo_dashboard] ''wo_2'' = Some wo_dashboard"
    by (simp add: last_added_def wo_login_def wo_dashboard_def)
  have q: "status wo_dashboard \<noteq> QUEUED" "status wo_dashboard = IN_PROGRESS"
    "status wo_login = QUEUED" "wo_id wo_dashboard = ''wo_2''"
    "tags wo_login = [''bug'', ''auth'']" "tags wo_dashboard = [''feature'']"
    by (simp_all add: wo_dashboard_def wo_login_def)
  note t = add_sequence_get_and_memberships [OF refl,
      of "[wo_login, wo_dashboard]" "''wo_2''" _ MEDIUM "''x''" "''feature''"]
  from t [of IN_PROGRESS] t [of QUEUED] d l q show ?thesis
    by simp
qed

text \<open>
  Claim C1 as stated fails: after adding \<open>wo_1\<close> as queued and then again as completed,
  the queued bucket still holds \<open>wo_1\<close>, and the filter by status QUEUED returns the
  completed record.
\<close>

theorem stale_status_membership_counterexample:
  "get_work_order (add_all init_index [wo_login, wo_login_done]) ''wo_1'' = Some wo_login_done \<and>
   status wo_login_done = COMPLETED \<and>
   ''wo_1'' \<in> set (index_by_status (add_all init_index [wo_login, wo_login_done]) QUEUED)"
  by (simp add: get_add_all status_add_all last_added_def wo_login_done_def wo_login_def)

section \<open>Filter completeness\<close>




section \<open>Lemmas about the search index\<close>













section \<open>Search semantics\<close>




section \<open>Lemmas about serialisation\<close>

lemma status_of_value_value [simp]: "status_of_value (status_value st) = Some st"
  by (cases st) (simp_all add: status_of_value_def all_statuses_def)

lemma priority_of_value_value [simp]: "priority_of_value (priority_value p) = Some p"
  by (cases p) (simp_all add: priority_of_value_def all_priorities_def)

lemma str_list_map [simp]: "str_list (map JStr ss) = Some ss"
  by (induction ss) simp_all

lemma from_dict_to_dict:
  assumes "timestamps_round_trip isofmt fromiso wo"
  shows "from_dict fromiso (to_dict isofmt wo) = Inr wo"
proof -
  from assms have c: "fromiso (isofmt (created_at wo)) = Some (created_at wo)"
    and u: "fromiso (isofmt (updated_at wo)) = Some (updated_at wo)"
    by (simp_all add: timestamps_round_trip_def iso_round_trip_def)
  have due: "parse_due_date fromiso
      [(''id'', JStr (wo_id wo)),
      (''title'', JStr (title wo)),
      (''description'', JStr (description wo)),
      (''status'', JStr (status_value (status wo))),
      (''priority'', JStr (priority_value (priority wo))),
      (''created_at'', JStr (isofmt (created_at wo))),
      (''updated_at'', JStr (isofmt (updated_at wo))),
      (''assigned_to'', (case assigned_to wo of None \<Rightarrow> JNull | Some a \<Rightarrow> JStr a)),
      (''due_date'', (case due_date wo of None \<Rightarrow> JNull | Some t \<Rightarrow> JStr (isofmt t))),
      (''tags'', JList (map JStr (tags wo))),
      (''metadata'', JObj (metadata wo)),
      (''source'', JStr (source wo))] = Inr (Some (due_date wo))"
    using assms
    by (cases "due_date wo")
       (simp_all add: parse_due_date_def parse_isoformat_def timestamps_round_trip_def
          iso_round_trip_def)
  show ?thesis
    unfolding to_dict_def from_dict_def
    by (simp add: due and_then_def subscript_def parse_status_def parse_priority_def
        parse_isoformat_def c u construct_def field_names_def str_field_def
        assigned_field_def tags_field_def metadata_field_def source_field_def
        split: option.splits)
qed

lemma add_all_Cons: "add_all s (wo # wos) = add_all (add_work_order s wo) wos"
  by (simp add: add_all_def)

lemma import_loop_to_dict:
  "\<forall>wo \<in> set wos. timestamps_round_trip isofmt fromiso wo \<Longrightarrow>
     import_loop fromiso s (map (to_dict isofmt) wos) = (None, add_all s wos)"
  by (induction wos arbitrary: s) (simp_all add: add_all_Nil add_all_Cons from_dict_to_dict)

lemma update_fresh: "k \<notin> fst ` set al \<Longrightarrow> AList.update k v al = al @ [(k, v)]"
  by (induction al) auto

lemma work_orders_distinct:
  "distinct (map wo_id wos) \<Longrightarrow>
     work_orders (add_all init_index wos) = map (\<lambda>wo. (wo_id wo, wo)) wos"
proof (induction wos rule: rev_induct)
  case Nil
  show ?case by (simp add: add_all_Nil)
next
  case (snoc wo wos)
  then have "wo_id wo \<notin> fst ` set (map (\<lambda>wo. (wo_id wo, wo)) wos)"
    by (auto simp: image_iff)
  with snoc show ?case
    by (simp add: add_all_snoc work_orders_add update_fresh)
qed

lemma export_work_orders:
  assumes "distinct (map wo_id wos)"
  shows "export_to_json isofmt now (add_all init_index wos) = JObj
     [(''work_orders'', JList (map (to_dict isofmt) wos)),
      (''statistics'', statistics_json (get_statistics (add_all init_index wos))),
      (''exported_at'', JStr (isofmt now))]"
  by (simp add: export_to_json_def work_orders_distinct [OF assms] comp_def)

lemma example_times [simp]:
  "iso_round_trip isoformat_std fromisoformat_std example_time"
  unfolding iso_round_trip_def by code_simp

lemma set_update_subset: "set (AList.update k v al) \<subseteq> insert (k, v) (set al)"
  by (induction al) auto

lemma stored_key_is_id:
  "(k, wo) \<in> set (work_orders (add_all init_index wos)) \<Longrightarrow> wo_id wo = k"
proof (induction wos arbitrary: k wo rule: rev_induct)
  case Nil
  then show ?case by (simp add: add_all_Nil)
next
  case (snoc x xs)
  from snoc.prems have "(k, wo) \<in> insert (wo_id x, x) (set (work_orders (add_all init_index xs)))"
    using set_update_subset [of "wo_id x" x "work_orders (add_all init_index xs)"]
    by (auto simp: add_all_snoc work_orders_add)
  with snoc.IH show ?case by auto
qed

lemma keyed_pairs:
  "\<forall>(k, w) \<in> set al. f w = k \<Longrightarrow> map (\<lambda>w. (f w, w)) (map snd al) = al"
  by (induction al) auto

lemma keyed_keys:
  "\<forall>(k, w) \<in> set al. f w = k \<Longrightarrow> map f (map snd al) = map fst al"
  by (induction al) auto

lemma stored_keyed:
  "\<forall>(k, wo) \<in> set (work_orders (add_all init_index wos)). wo_id wo = k"
  using stored_key_is_id by blast

lemma stored_pairs:
  "map (\<lambda>wo. (wo_id wo, wo)) (map snd (work_orders (add_all init_index wos))) =
     work_orders (add_all init_index wos)"
  using stored_keyed by (rule keyed_pairs)

lemma stored_ids_distinct:
  "distinct (map wo_id (map snd (work_orders (add_all init_index wos))))"
  unfolding keyed_keys [OF stored_keyed] by (rule distinct_keys_add_all)

lemma reimport_work_orders:
  "work_orders (add_all init_index (map snd (work_orders (add_all init_index wos)))) =
     work_orders (add_all init_index wos)"
  unfolding work_orders_distinct [OF stored_ids_distinct] by (rule stored_pairs)

lemma import_export:
  assumes "\<forall>wo \<in> snd ` set (work_orders (add_all init_index wos)).
      timestamps_round_trip isofmt fromiso wo"
  shows "import_from_json fromiso init_index
      (export_to_json isofmt now (add_all init_index wos)) =
    (None, add_all init_index (map snd (work_orders (add_all init_index wos))))"
proof -
  have m: "map (\<lambda>(k, wo). to_dict isofmt wo) (work_orders (add_all init_index wos)) =
      map (to_dict isofmt) (map snd (work_orders (add_all init_index wos)))"
    by (simp add: comp_def case_prod_beta)
  from assms have t: "\<forall>wo \<in> set (map snd (work_orders (add_all init_index wos))).
      timestamps_round_trip isofmt fromiso wo"
    by simp
  have l: "import_loop fromiso init_index
      (map (to_dict isofmt) (map snd (work_orders (add_all init_index wos)))) =
      (None, add_all init_index (map snd (work_orders (add_all init_index wos))))"
    using t by (rule import_loop_to_dict)
  show ?thesis
    unfolding export_to_json_def m
    by (simp add: import_from_json_def iterate_def l del: map_map)
qed

section \<open>Export and import\<close>

text \<open>
  Claim C3, as the code has it. Let the index be built from a fresh one by any sequence of
  additions, and let \<^verbatim>\<open>fromisoformat\<close> read back what \<^verbatim>\<open>isoformat\<close> prints for the
  timestamps of the stored work orders. Importing the exported document into a fresh index
  raises nothing; every id yields the same record in the new index as in the original
  (timestamps included, to the microsecond); and the total number of work orders is the
  same. When every id was added at most once, the whole statistics are the same.
\<close>

theorem export_import_round_trip:
  assumes "s = add_all init_index wos"
    and "\<forall>wo \<in> snd ` set (work_orders s). timestamps_round_trip isofmt fromiso wo"
  shows "fst (import_from_json fromiso init_index (export_to_json isofmt now s)) = None \<and>
    (\<forall>i. get_work_order (snd (import_from_json fromiso init_index (export_to_json isofmt now s))) i =
      get_work_order s i) \<and>
    total_work_orders
      (get_statistics (snd (import_from_json fromiso init_index (export_to_json isofmt now s)))) =
      total_work_orders (get_statistics s) \<and>
    (distinct (map wo_id wos) \<longrightarrow>
       get_statistics (snd (import_from_json fromiso init_index (export_to_json isofmt now s))) =
       get_statistics s)"
proof -
  have i: "import_from_json fromiso init_index (export_to_json isofmt now s) =
      (None, add_all init_index (map snd (work_orders s)))"
    using assms(2) unfolding assms(1) by (rule import_export)
  have w: "work_orders (add_all init_index (map snd (work_orders s))) = work_orders s"
    unfolding assms(1) by (rule reimport_work_orders)
  have 1: "fst (import_from_json fromiso init_index (export_to_json isofmt now s)) = None"
    by (simp add: i)
  have 2: "\<forall>i. get_work_order
      (snd (import_from_json fromiso init_index (export_to_json isofmt now s))) i =
      get_work_order s i"
    by (simp add: i get_work_order_def w)
  have 3: "total_work_orders
      (get_statistics (snd (import_from_json fromiso init_index (export_to_json isofmt now s)))) =
      total_work_orders (get_statistics s)"
    by (simp add: i get_statistics_def w)
  have 4: "get_statistics
       (snd (import_from_json fromiso init_index (export_to_json isofmt now s))) =
       get_statistics s" if d: "distinct (map wo_id wos)"
  proof -
    have e: "map snd (work_orders s) = wos"
      unfolding assms(1) work_orders_distinct [OF d] by (simp add: comp_def)
    have "snd (import_from_json fromiso init_index (export_to_json isofmt now s)) = s"
      by (simp add: i e assms(1) [symmetric])
    then show ?thesis
      by simp
  qed
  from 1 2 3 4 show ?thesis by blast
qed

lemma stored_subset:
  "snd ` set (work_orders (add_all init_index wos)) \<subseteq> set wos"
proof
  fix w assume "w \<in> snd ` set (work_orders (add_all init_index wos))"
  then obtain i where "get_work_order (add_all init_index wos) i = Some w"
    unfolding stored_iff by blast
  then show "w \<in> set wos"
    using last_added_SomeD [of wos i w] by (simp add: get_add_all)
qed

theorem export_import_round_trip_witness:
  "get_work_order (snd (import_from_json fromisoformat_std init_index
      (export_to_json isoformat_std example_time
         (add_all init_index [wo_login, wo_dashboard, wo_login_done])))) ''wo_1'' =
     get_work_order (add_all init_index [wo_login, wo_dashboard, wo_login_done]) ''wo_1'' \<and>
   total_work_orders (get_statistics (snd (import_from_json fromisoformat_std init_index
      (export_to_json isoformat_std example_time
         (add_all init_index [wo_login, wo_dashboard, wo_login_done]))))) =
     total_work_orders (get_statistics (add_all init_index [wo_login, wo_dashboard, wo_login_done])) \<and>
   get_statistics (snd (import_from_json fromisoformat_std init_index
      (export_to_json isoformat_std example_time (add_all init_index [wo_login, wo_dashboard])))) =
     get_statistics (add_all init_index [wo_login, wo_dashboard])"
proof -
  have r: "\<forall>wo \<in> set [wo_login, wo_dashboard, wo_login_done].
      timestamps_round_trip isoformat_std fromisoformat_std wo"
    by (simp add: timestamps_round_trip_def wo_login_def wo_dashboard_def wo_login_done_def)
  have t3: "\<forall>wo \<in> snd ` set (work_orders (add_all init_index [wo_login, wo_dashboard, wo_login_done])).
      timestamps_round_trip isoformat_std fromisoformat_std wo"
    using r stored_subset [of "[wo_login, wo_dashboard, wo_login_done]"] by blast
  have t2: "\<forall>wo \<in> snd ` set (work_orders (add_all init_index [wo_login, wo_dashboard])).
      timestamps_round_trip isoformat_std fromisoformat_std wo"
    using r stored_subset [of "[wo_login, wo_dashboard]"] by auto
  have d: "distinct (map wo_id [wo_login, wo_dashboard])"
    by (simp add: wo_login_def wo_dashboard_def)
  from export_import_round_trip [OF refl t3, of example_time]
    export_import_round_trip [OF refl t2, of example_time] d
  show ?thesis
    by blast
qed

text \<open>
  Claim C3 as stated fails for an index in which an id was added twice: the status and
  priority buckets count both additions, the exported document holds the record once, and
  the statistics of the re-imported index differ from the original's.
\<close>

theorem round_trip_statistics_counterexample:
  "fst (import_from_json fromisoformat_std init_index
      (export_to_json isoformat_std example_time (add_all init_index [wo_login, wo_login]))) = None \<and>
   get_statistics (snd (import_from_json fromisoformat_std init_index
      (export_to_json isoformat_std example_time (add_all init_index [wo_login, wo_login])))) \<noteq>
     get_statistics (add_all init_index [wo_login, wo_login])"
  by code_simp

lemma and_then_Inr:
  "and_then r f = Inr y \<longleftrightarrow> (\<exists>x. r = Inr x \<and> f x = Inr y)"
  by (cases r) (simp_all add: and_then_def)

lemma unparsable_from_dict:
  assumes "unparsable_record fromiso r"
  shows "\<exists>e. from_dict fromiso (JObj r) = Inl e"
proof (cases "from_dict fromiso (JObj r)")
  case (Inl e)
  then show ?thesis by blast
next
  case (Inr wo)
  then obtain st p c u due where
    st: "and_then (subscript r ''status'') parse_status = Inr st" and
    p: "and_then (subscript r ''priority'') parse_priority = Inr p" and
    c: "and_then (subscript r ''created_at'') (parse_isoformat fromiso) = Inr c" and
    u: "and_then (subscript r ''updated_at'') (parse_isoformat fromiso) = Inr u" and
    due: "parse_due_date fromiso r = Inr due"
    unfolding from_dict_def by (auto simp: and_then_Inr)
  from st have 1:
    "\<not> (case map_of r ''status'' of Some (JStr v) \<Rightarrow> status_of_value v = None | _ \<Rightarrow> False)"
    by (auto simp: and_then_Inr subscript_def parse_status_def split: option.splits json.splits)
  from p have 2:
    "\<not> (case map_of r ''priority'' of Some (JStr v) \<Rightarrow> priority_of_value v = None | _ \<Rightarrow> False)"
    by (auto simp: and_then_Inr subscript_def parse_priority_def split: option.splits json.splits)
  from c have 3:
    "\<not> (case map_of r ''created_at'' of Some (JStr v) \<Rightarrow> fromiso v = None | _ \<Rightarrow> False)"
    by (auto simp: and_then_Inr subscript_def parse_isoformat_def split: option.splits json.splits)
  from u have 4:
    "\<not> (case map_of r ''updated_at'' of Some (JStr v) \<Rightarrow> fromiso v = None | _ \<Rightarrow> False)"
    by (auto simp: and_then_Inr subscript_def parse_isoformat_def split: option.splits json.splits)
  from due have 5:
    "\<not> (case map_of r ''due_date'' of Some (JStr v) \<Rightarrow> v \<noteq> [] \<and> fromiso v = None
         | _ \<Rightarrow> False)"
    by (auto simp: parse_due_date_def parse_isoformat_def
        split: option.splits json.splits if_splits sum.splits)
  from assms 1 2 3 4 5 show ?thesis
    unfolding unparsable_record_def by blast
qed

lemma import_loop_append:
  "\<forall>wo \<in> set wos. timestamps_round_trip isofmt fromiso wo \<Longrightarrow>
     import_loop fromiso s (map (to_dict isofmt) wos @ rest) =
     import_loop fromiso (add_all s wos) rest"
  by (induction wos arbitrary: s) (simp_all add: add_all_Nil add_all_Cons from_dict_to_dict)

section \<open>Unparsable records during import\<close>

text \<open>
  Claim C4, as the code has it. \<^verbatim>\<open>import_from_json\<close> does not catch what
  \<^verbatim>\<open>from_dict\<close> raises. When a record with an unparsable status, priority or timestamp
  follows records that were exported from work orders, the import call ends with an
  exception: the records before it have been added, and neither this record nor any record
  after it is imported.
\<close>

theorem import_stops_at_unparsable_record:
  assumes "map_of d ''work_orders'' = Some (JList (map (to_dict isofmt) good @ JObj bad # rest))"
    and "\<forall>wo \<in> set good. timestamps_round_trip isofmt fromiso wo"
    and "unparsable_record fromiso bad"
  shows "fst (import_from_json fromiso s (JObj d)) \<noteq> None \<and>
    snd (import_from_json fromiso s (JObj d)) = add_all s good"
proof -
  from unparsable_from_dict [OF assms(3)]
  obtain e where "from_dict fromiso (JObj bad) = Inl e" ..
  then have "import_from_json fromiso s (JObj d) = (Some e, add_all s good)"
    by (simp add: import_from_json_def assms(1) iterate_def import_loop_append [OF assms(2)])
  then show ?thesis by simp
qed

theorem import_stops_at_unparsable_record_witness:
  "fst (import_from_json fromisoformat_std init_index
      (JObj [(''work_orders'',
         JList [to_dict isoformat_std wo_login, bogus_status_record,
                to_dict isoformat_std wo_dashboard])])) \<noteq> None \<and>
   snd (import_from_json fromisoformat_std init_index
      (JObj [(''work_orders'',
         JList [to_dict isoformat_std wo_login, bogus_status_record,
                to_dict isoformat_std wo_dashboard])])) = add_all init_index [wo_login]"
proof -
  have m: "map_of [(''work_orders'',
         JList [to_dict isoformat_std wo_login, bogus_status_record,
                to_dict isoformat_std wo_dashboard])] ''work_orders'' =
      Some (JList (map (to_dict isoformat_std) [wo_login] @
        JObj [(''id'', JStr ''wo_9''), (''title'', JStr ''Broken''), (''description'', JStr []),
          (''status'', JStr ''bogus''), (''priority'', JStr ''low''),
          (''created_at'', JStr ''2024-05-17T09:30:00''),
          (''updated_at'', JStr ''2024-05-17T09:30:00''),
          (''assigned_to'', JNull), (''due_date'', JNull), (''tags'', JList []),
          (''metadata'', JObj []), (''source'', JStr ''8090_factory'')] #
        [to_dict isoformat_std wo_dashboard]))"
    by (simp add: bogus_status_record_def)
  have t: "\<forall>wo \<in> set [wo_login]. timestamps_round_trip isoformat_std fromisoformat_std wo"
    by (simp add: timestamps_round_trip_def wo_login_def)
  have b: "unparsable_record fromisoformat_std
       [(''id'', JStr ''wo_9''), (''title'', JStr ''Broken''), (''description'', JStr []),
          (''status'', JStr ''bogus''), (''priority'', JStr ''low''),
          (''created_at'', JStr ''2024-05-17T09:30:00''),
          (''updated_at'', JStr ''2024-05-17T09:30:00''),
          (''assigned_to'', JNull), (''due_date'', JNull), (''tags'', JList []),
          (''metadata'', JObj []), (''source'', JStr ''8090_factory'')]"
    by (simp add: unparsable_record_def status_of_value_def all_statuses_def)
  from import_stops_at_unparsable_record [OF m t b, of init_index] show ?thesis .
qed

text \<open>
  Claim C4 as stated fails: a document of three records, the second with the status
  \<open>bogus\<close>. The import raises ValueError, and \<open>wo_2\<close>, the record after the unparsable
  one, is not in the index afterwards, although it is importable on its own.
\<close>

theorem import_aborts_counterexample:
  "fst (import_from_json fromisoformat_std init_index
      (JObj [(''work_orders'',
         JList [to_dict isoformat_std wo_login, bogus_status_record,
                to_dict isoformat_std wo_dashboard])])) = Some ValueError \<and>
   get_work_order (snd (import_from_json fromisoformat_std init_index
      (JObj [(''work_orders'',
         JList [to_dict isoformat_std wo_login, bogus_status_record,
                to_dict isoformat_std wo_dashboard])]))) ''wo_2'' = None \<and>
   from_dict fromisoformat_std (to_dict isoformat_std wo_dashboard) = Inr wo_dashboard"
  by code_simp

lemma import_loop_adds:
  "\<exists>e wos. \<forall>s. import_loop fromiso s items = (e, add_all s wos)"
proof (induction items)
  case Nil
  have "\<forall>s. import_loop fromiso s [] = (None, add_all s [])"
    by (simp add: add_all_Nil)
  then show ?case by blast
next
  case (Cons x items)
  then obtain e wos where ih: "\<And>s. import_loop fromiso s items = (e, add_all s wos)"
    by blast
  show ?case
  proof (cases "from_dict fromiso x")
    case (Inl err)
    then have "\<forall>s. import_loop fromiso s (x # items) = (Some err, add_all s [])"
      by (simp add: add_all_Nil)
    then show ?thesis by blast
  next
    case (Inr wo)
    then have "\<forall>s. import_loop fromiso s (x # items) = (e, add_all s (wo # wos))"
      by (simp add: ih add_all_Cons)
    then show ?thesis by blast
  qed
qed

lemma import_from_json_adds:
  "\<exists>e wos. \<forall>s. import_from_json fromiso s doc = (e, add_all s wos)"
proof (cases doc)
  case (JObj d)
  show ?thesis
  proof (cases "iterate (case map_of d ''work_orders'' of None \<Rightarrow> JList [] | Some v \<Rightarrow> v)")
    case (Inl err)
    with JObj have "\<forall>s. import_from_json fromiso s doc = (Some err, add_all s [])"
      by (simp add: import_from_json_def add_all_Nil)
    then show ?thesis by blast
  next
    case (Inr items)
    from import_loop_adds [of fromiso items]
    obtain e wos where "\<And>s. import_loop fromiso s items = (e, add_all s wos)" by blast
    with JObj Inr have "\<forall>s. import_from_json fromiso s doc = (e, add_all s wos)"
      by (simp add: import_from_json_def)
    then show ?thesis by blast
  qed
qed (simp_all add: import_from_json_def, (metis add_all_Nil)+)

lemma keys_update: "fst ` set (AList.update k v al) = insert k (fst ` set al)"
  by (induction al) auto

lemma length_update_known: "k \<in> fst ` set al \<Longrightarrow> length (AList.update k v al) = length al"
  by (induction al) auto

lemma keys_add_all:
  "fst ` set (work_orders (add_all s wos)) = fst ` set (work_orders s) \<union> wo_id ` set wos"
  by (induction wos rule: rev_induct)
     (auto simp: add_all_Nil add_all_snoc work_orders_add keys_update)

lemma length_add_all_known:
  "wo_id ` set wos \<subseteq> fst ` set (work_orders s) \<Longrightarrow>
     length (work_orders (add_all s wos)) = length (work_orders s)"
proof (induction wos rule: rev_induct)
  case Nil
  show ?case by (simp add: add_all_Nil)
next
  case (snoc wo wos)
  then have "wo_id wo \<in> fst ` set (work_orders (add_all s wos))"
    unfolding keys_add_all by auto
  with snoc show ?case
    by (simp add: add_all_snoc work_orders_add length_update_known)
qed

section \<open>Importing a document twice\<close>

text \<open>
  Claim C7. For every index state and every document (whose records, as far as they are
  read, have fields of the annotated types), importing the document a second time leaves
  the total number of work orders as it was after the first import. This holds whether or
  not the import ends with an exception.
\<close>

theorem import_twice_total:
  assumes "fst (import_from_json fromiso s doc) \<noteq> Some NotAnnotated"
  shows "total_work_orders (get_statistics
       (snd (import_from_json fromiso (snd (import_from_json fromiso s doc)) doc))) =
     total_work_orders (get_statistics (snd (import_from_json fromiso s doc)))"
proof -
  from import_from_json_adds [of fromiso doc]
  obtain e wos where i: "\<And>s. import_from_json fromiso s doc = (e, add_all s wos)" by blast
  have "wo_id ` set wos \<subseteq> fst ` set (work_orders (add_all s wos))"
    unfolding keys_add_all by simp
  then have "length (work_orders (add_all (add_all s wos) wos)) =
      length (work_orders (add_all s wos))"
    by (rule length_add_all_known)
  then show ?thesis
    by (simp add: i get_statistics_def)
qed

theorem import_twice_total_witness:
  "total_work_orders (get_statistics
       (snd (import_from_json fromisoformat_std
          (snd (import_from_json fromisoformat_std (add_all init_index [wo_dashboard])
             (JObj [(''work_orders'', JList [to_dict isoformat_std wo_login, bogus_status_record])])))
          (JObj [(''work_orders'', JList [to_dict isoformat_std wo_login, bogus_status_record])])))) =
     total_work_orders (get_statistics
       (snd (import_from_json fromisoformat_std (add_all init_index [wo_dashboard])
          (JObj [(''work_orders'', JList [to_dict isoformat_std wo_login, bogus_status_record])]))))"
proof -
  have "fst (import_from_json fromisoformat_std (add_all init_index [wo_dashboard])
          (JObj [(''work_orders'', JList [to_dict isoformat_std wo_login, bogus_status_record])])) =
        Some ValueError"
    by code_simp
  then have "fst (import_from_json fromisoformat_std (add_all init_index [wo_dashboard])
          (JObj [(''work_orders'', JList [to_dict isoformat_std wo_login, bogus_status_record])])) \<noteq>
        Some NotAnnotated"
    by simp
  then show ?thesis
    by (rule import_twice_total)
qed

section \<open>Lemmas about discovery\<close>

lemma create_Some:
  "fst (create_work_order_from_data L c url data) = Some wo \<longleftrightarrow> create_body L c url data = Inr wo"
  by (simp add: create_work_order_from_data_def split: sum.splits)

lemma create_Failed:
  "create_body L c url data = Inl e \<Longrightarrow>
     create_work_order_from_data L c url data = (None, Failed e data)"
  by (simp add: create_work_order_from_data_def)

lemma create_bodyD:
  assumes "create_body L c url (JObj d) = Inr wo"
  shows "\<exists>status_str priority_str created updated due.
    lower_of (get2 d ''status'' ''state'' (JStr ''queued'')) = Inr status_str \<and>
    lower_of (get2 d ''priority'' ''urgency'' (JStr ''medium'')) = Inr priority_str \<and>
    parse_timestamp L (at_created c) (get3 d ''created_at'' ''created'' ''timestamp'' JNull) =
       Inr created \<and>
    parse_timestamp L (at_updated c) (get3 d ''updated_at'' ''updated'' ''modified'' JNull) =
       Inr updated \<and>
    parse_timestamp L (at_due c) (get3 d ''due_date'' ''deadline'' ''due'' JNull) = Inr due \<and>
    raw_id wo = extract_id L d \<and>
    raw_title wo = get3 d ''title'' ''name'' ''subject'' (JStr ''Untitled Work Order'') \<and>
    raw_status wo = (case map_of status_mapping status_str of None \<Rightarrow> QUEUED | Some st \<Rightarrow> st) \<and>
    raw_priority wo =
       (case map_of priority_mapping priority_str of None \<Rightarrow> MEDIUM | Some p \<Rightarrow> p) \<and>
    raw_due_date wo = Some due"
proof -
  from assms obtain status_str where
    1: "lower_of (get2 d ''status'' ''state'' (JStr ''queued'')) = Inr status_str"
    by (cases "lower_of (get2 d ''status'' ''state'' (JStr ''queued''))")
       (simp_all add: create_body_def and_then_def)
  from assms 1 obtain priority_str where
    2: "lower_of (get2 d ''priority'' ''urgency'' (JStr ''medium'')) = Inr priority_str"
    by (cases "lower_of (get2 d ''priority'' ''urgency'' (JStr ''medium''))")
       (simp_all add: create_body_def and_then_def)
  from assms 1 2 obtain created where
    3: "parse_timestamp L (at_created c) (get3 d ''created_at'' ''created'' ''timestamp'' JNull) =
       Inr created"
    by (cases "parse_timestamp L (at_created c)
          (get3 d ''created_at'' ''created'' ''timestamp'' JNull)")
       (simp_all add: create_body_def and_then_def)
  from assms 1 2 3 obtain updated where
    4: "parse_timestamp L (at_updated c) (get3 d ''updated_at'' ''updated'' ''modified'' JNull) =
       Inr updated"
    by (cases "parse_timestamp L (at_updated c)
          (get3 d ''updated_at'' ''updated'' ''modified'' JNull)")
       (simp_all add: create_body_def and_then_def)
  from assms 1 2 3 4 obtain due where
    5: "parse_timestamp L (at_due c) (get3 d ''due_date'' ''deadline'' ''due'' JNull) = Inr due"
    by (cases "parse_timestamp L (at_due c) (get3 d ''due_date'' ''deadline'' ''due'' JNull)")
       (simp_all add: create_body_def and_then_def)
  from assms have "wo = \<lparr>raw_id = extract_id L d,
               raw_title = get3 d ''title'' ''name'' ''subject'' (JStr ''Untitled Work Order''),
               raw_description = get3 d ''description'' ''details'' ''summary'' (JStr []),
               raw_status =
                 (case map_of status_mapping status_str of None \<Rightarrow> QUEUED | Some st \<Rightarrow> st),
               raw_priority =
                 (case map_of priority_mapping priority_str of None \<Rightarrow> MEDIUM | Some p \<Rightarrow> p),
               raw_created_at = created,
               raw_updated_at = updated,
               raw_assigned_to =
                 extract_assigned_to L (get3 d ''assigned_to'' ''assignee'' ''owner'' JNull),
               raw_due_date = Some due,
               raw_tags = extract_tags (get3 d ''tags'' ''labels'' ''categories'' (JList [])),
               raw_metadata = extract_metadata d url,
               raw_source = ''8090_factory''\<rparr>"
    by (simp add: create_body_def and_then_def 1 2 3 4 5)
  then have "raw_id wo = extract_id L d \<and>
    raw_title wo = get3 d ''title'' ''name'' ''subject'' (JStr ''Untitled Work Order'') \<and>
    raw_status wo = (case map_of status_mapping status_str of None \<Rightarrow> QUEUED | Some st \<Rightarrow> st) \<and>
    raw_priority wo =
       (case map_of priority_mapping priority_str of None \<Rightarrow> MEDIUM | Some p \<Rightarrow> p) \<and>
    raw_due_date wo = Some due"
    by simp
  with 1 2 3 4 5 show ?thesis by blast
qed


lemma parse_timestamp_no_parse:
  "parse_timestamp L now v = Inr t \<Longrightarrow> no_parse L v \<Longrightarrow> t = now"
  by (auto simp: parse_timestamp_def no_parse_def from_unix_def
      split: if_splits json.splits option.splits)

lemma lower_of_JStr: "lower_of (JStr s) = Inr (lower s)"
  by (simp add: lower_of_def)

lemma lower_of_Inr: "lower_of v = Inr x \<Longrightarrow> \<exists>s. v = JStr s \<and> x = lower s"
  by (cases v) (simp_all add: lower_of_def)

lemma parse_timestamp_falsy: "\<not> truthy v \<Longrightarrow> parse_timestamp L now v = Inr now"
  by (simp add: parse_timestamp_def)

lemma get3_absent:
  "map_of d k1 = None \<Longrightarrow> map_of d k2 = None \<Longrightarrow> map_of d k3 = None \<Longrightarrow>
     get3 d k1 k2 k3 dflt = dflt"
  by (simp add: get3_def get2_def)

lemma scenario_words: "lower ''active'' = ''active''" "lower ''urgent'' = ''urgent''"
  by code_simp+

lemma scenario_body:
  "\<exists>wo. create_body L c url untitled_task = Inr wo \<and> raw_title wo = JStr ''Untitled task'' \<and>
     raw_status wo = IN_PROGRESS \<and> raw_priority wo = URGENT"
  by (simp add: untitled_task_def create_body_def get2_def get3_def lower_of_JStr and_then_def
      parse_timestamp_falsy scenario_words status_mapping_def priority_mapping_def)

section \<open>Status and priority aliases\<close>

text \<open>
  Claim C6. Whenever the normalizer produces a work order from a raw mapping whose status
  (under \<^verbatim>\<open>status\<close>, else \<^verbatim>\<open>state\<close>, else the text \<^verbatim>\<open>queued\<close>) is a string, the
  status of the work order is what the alias table gives for the lower-cased string, and
  QUEUED if the table has no entry; likewise for the priority (under \<^verbatim>\<open>priority\<close>, else
  \<^verbatim>\<open>urgency\<close>, else \<^verbatim>\<open>medium\<close>) with MEDIUM. The table maps pending to QUEUED, active
  to IN_PROGRESS, done to COMPLETED and paused to ON_HOLD. The raw mapping of the scenario
  is normalized, with any library and clock, to a work order with title
  \<open>Untitled task\<close>, status IN_PROGRESS and priority URGENT.
\<close>

theorem status_priority_aliases:
  "(fst (create_work_order_from_data L c url (JObj d)) = Some wo \<longrightarrow>
      (\<forall>s. get2 d ''status'' ''state'' (JStr ''queued'') = JStr s \<longrightarrow>
         raw_status wo =
           (case map_of status_mapping (lower s) of None \<Rightarrow> QUEUED | Some st \<Rightarrow> st)) \<and>
      (\<forall>s. get2 d ''priority'' ''urgency'' (JStr ''medium'') = JStr s \<longrightarrow>
         raw_priority wo =
           (case map_of priority_mapping (lower s) of None \<Rightarrow> MEDIUM | Some p \<Rightarrow> p))) \<and>
   map_of status_mapping ''pending'' = Some QUEUED \<and>
   map_of status_mapping ''active'' = Some IN_PROGRESS \<and>
   map_of status_mapping ''done'' = Some COMPLETED \<and>
   map_of status_mapping ''paused'' = Some ON_HOLD \<and>
   (\<exists>wo'. fst (create_work_order_from_data L c url untitled_task) = Some wo' \<and>
      raw_title wo' = JStr ''Untitled task'' \<and> raw_status wo' = IN_PROGRESS \<and>
      raw_priority wo' = URGENT)"
proof -
  have a: "(\<forall>s. get2 d ''status'' ''state'' (JStr ''queued'') = JStr s \<longrightarrow>
         raw_status wo =
           (case map_of status_mapping (lower s) of None \<Rightarrow> QUEUED | Some st \<Rightarrow> st)) \<and>
      (\<forall>s. get2 d ''priority'' ''urgency'' (JStr ''medium'') = JStr s \<longrightarrow>
         raw_priority wo =
           (case map_of priority_mapping (lower s) of None \<Rightarrow> MEDIUM | Some p \<Rightarrow> p))"
    if "fst (create_work_order_from_data L c url (JObj d)) = Some wo"
  proof -
    from that have "create_body L c url (JObj d) = Inr wo"
      by (simp add: create_Some)
    from create_bodyD [OF this] obtain status_str priority_str where
      s: "lower_of (get2 d ''status'' ''state'' (JStr ''queued'')) = Inr status_str" and
      p: "lower_of (get2 d ''priority'' ''urgency'' (JStr ''medium'')) = Inr priority_str" and
      rs: "raw_status wo =
        (case map_of status_mapping status_str of None \<Rightarrow> QUEUED | Some st \<Rightarrow> st)" and
      rp: "raw_priority wo =
        (case map_of priority_mapping priority_str of None \<Rightarrow> MEDIUM | Some p \<Rightarrow> p)"
      by blast
    from s rs p rp show ?thesis
      by (auto simp: lower_of_JStr)
  qed
  have t: "map_of status_mapping ''pending'' = Some QUEUED"
    "map_of status_mapping ''active'' = Some IN_PROGRESS"
    "map_of status_mapping ''done'' = Some COMPLETED"
    "map_of status_mapping ''paused'' = Some ON_HOLD"
    by (simp_all add: status_mapping_def)
  from scenario_body [of L c url]
  have sc: "\<exists>wo'. fst (create_work_order_from_data L c url untitled_task) = Some wo' \<and>
      raw_title wo' = JStr ''Untitled task'' \<and> raw_status wo' = IN_PROGRESS \<and>
      raw_priority wo' = URGENT"
    by (simp add: create_Some)
  from a t sc show ?thesis by blast
qed

theorem status_priority_aliases_witness:
  "raw_status (the (fst (create_work_order_from_data example_lib example_clock ''u''
      (JObj [(''id'', JStr ''t-1''), (''state'', JStr ''Done''), (''priority'', JStr ''whenever'')])))) =
     COMPLETED \<and>
   raw_priority (the (fst (create_work_order_from_data example_lib example_clock ''u''
      (JObj [(''id'', JStr ''t-1''), (''state'', JStr ''Done''), (''priority'', JStr ''whenever'')])))) =
     MEDIUM"
proof -
  have p: "fst (create_work_order_from_data example_lib example_clock ''u''
      (JObj [(''id'', JStr ''t-1''), (''state'', JStr ''Done''), (''priority'', JStr ''whenever'')]))
    = Some (the (fst (create_work_order_from_data example_lib example_clock ''u''
      (JObj [(''id'', JStr ''t-1''), (''state'', JStr ''Done''), (''priority'', JStr ''whenever'')]))))"
    by code_simp
  have g: "get2 [(''id'', JStr ''t-1''), (''state'', JStr ''Done''), (''priority'', JStr ''whenever'')]
      ''status'' ''state'' (JStr ''queued'') = JStr ''Done''"
    "get2 [(''id'', JStr ''t-1''), (''state'', JStr ''Done''), (''priority'', JStr ''whenever'')]
      ''priority'' ''urgency'' (JStr ''medium'') = JStr ''whenever''"
    by (simp_all add: get2_def)
  have l: "(case map_of status_mapping (lower ''Done'') of None \<Rightarrow> QUEUED | Some st \<Rightarrow> st) =
      COMPLETED"
    "(case map_of priority_mapping (lower ''whenever'') of None \<Rightarrow> MEDIUM | Some p \<Rightarrow> p) = MEDIUM"
    by code_simp+
  from status_priority_aliases [of example_lib example_clock "''u''"
      "[(''id'', JStr ''t-1''), (''state'', JStr ''Done''), (''priority'', JStr ''whenever'')]"
      "the (fst (create_work_order_from_data example_lib example_clock ''u''
      (JObj [(''id'', JStr ''t-1''), (''state'', JStr ''Done''), (''priority'', JStr ''whenever'')])))"]
    p g
  have "raw_status (the (fst (create_work_order_from_data example_lib example_clock ''u''
      (JObj [(''id'', JStr ''t-1''), (''state'', JStr ''Done''), (''priority'', JStr ''whenever'')])))) =
      (case map_of status_mapping (lower ''Done'') of None \<Rightarrow> QUEUED | Some st \<Rightarrow> st) \<and>
    raw_priority (the (fst (create_work_order_from_data example_lib example_clock ''u''
      (JObj [(''id'', JStr ''t-1''), (''state'', JStr ''Done''), (''priority'', JStr ''whenever'')])))) =
      (case map_of priority_mapping (lower ''whenever'') of None \<Rightarrow> MEDIUM | Some p \<Rightarrow> p)"
    by blast
  then show ?thesis
    unfolding l .
qed

lemma created_of_Nil [simp]: "created_of L clocks url [] = []"
  by (simp add: created_of_def)

lemma created_of_Cons:
  "created_of L clocks url ((n, item) # rest) =
     (case fst (create_work_order_from_data L (clocks n) url item) of
        None \<Rightarrow> created_of L clocks url rest
      | Some wo \<Rightarrow> wo # created_of L clocks url rest)"
  by (simp add: created_of_def split: option.splits)

lemma created_of_append:
  "created_of L clocks url (xs @ ys) = created_of L clocks url xs @ created_of L clocks url ys"
  by (induction xs) (auto simp: created_of_Cons split: option.splits)

lemma create_each_eq:
  "create_each L clocks url n items =
     (created_of L clocks url (List.enumerate n items),
      map (\<lambda>(k, item). snd (create_work_order_from_data L (clocks k) url item))
        (List.enumerate n items))"
  by (induction items arbitrary: n)
     (auto simp: created_of_Cons split: prod.splits option.splits)

lemma extract_patterns_eq:
  "extract_patterns L clocks url data n patterns =
     (created_of L clocks url
        (List.enumerate n (concat (map (\<lambda>pattern.
           case map_of data pattern of Some (JList items) \<Rightarrow> items | _ \<Rightarrow> []) patterns))),
      map (\<lambda>(k, item). snd (create_work_order_from_data L (clocks k) url item))
        (List.enumerate n (concat (map (\<lambda>pattern.
           case map_of data pattern of Some (JList items) \<Rightarrow> items | _ \<Rightarrow> []) patterns))))"
proof (induction patterns arbitrary: n)
  case Nil
  show ?case by simp
next
  case (Cons pattern patterns)
  show ?case
  proof (cases "\<exists>items. map_of data pattern = Some (JList items)")
    case True
    then obtain items where i: "map_of data pattern = Some (JList items)" ..
    show ?thesis
      by (simp add: i Cons.IH create_each_eq enumerate_append_eq created_of_append)
  next
    case False
    then have "(case map_of data pattern of Some (JList items) \<Rightarrow> items | _ \<Rightarrow> []) = []"
      by (auto split: option.splits json.splits)
    moreover from False have
      "extract_patterns L clocks url data n (pattern # patterns) =
         extract_patterns L clocks url data n patterns"
      by (auto split: option.splits json.splits)
    ultimately show ?thesis
      by (simp add: Cons.IH)
  qed
qed

lemma extract_eq:
  "extract_work_orders_from_dict L clocks url data =
     (created_of L clocks url (List.enumerate 0 (batch_items data)),
      map (\<lambda>(k, item). snd (create_work_order_from_data L (clocks k) url item))
        (List.enumerate 0 (batch_items data)))"
  by (simp add: extract_work_orders_from_dict_def batch_items_def extract_patterns_eq)

section \<open>A record that cannot be normalized\<close>

text \<open>
  Claim C8. Let the items of a batch be \<open>before\<close>, then \<open>item\<close>, then \<open>after\<close>, and let
  field extraction raise \<open>e\<close> for \<open>item\<close>. Then \<^verbatim>\<open>_create_work_order_from_data\<close> returns
  no work order for \<open>item\<close> and logs the failure with \<open>e\<close> and the raw item; every item of
  the batch is processed (one log record each); and the work orders returned by
  \<^verbatim>\<open>_extract_work_orders_from_dict\<close> are those of the items before, followed by those of
  the items after, each as its own call yields it.
\<close>

theorem failing_record_dropped_batch_continues:
  assumes "batch_items data = before @ item # after"
    and "create_body L (clocks (length before)) url item = Inl e"
  shows "create_work_order_from_data L (clocks (length before)) url item = (None, Failed e item) \<and>
    fst (extract_work_orders_from_dict L clocks url data) =
      created_of L clocks url (List.enumerate 0 before) @
      created_of L clocks url (List.enumerate (Suc (length before)) after) \<and>
    length (snd (extract_work_orders_from_dict L clocks url data)) = length (batch_items data) \<and>
    snd (extract_work_orders_from_dict L clocks url data) ! length before = Failed e item"
proof -
  have c: "create_work_order_from_data L (clocks (length before)) url item = (None, Failed e item)"
    using assms(2) by (rule create_Failed)
  have en: "List.enumerate 0 (batch_items data) =
      List.enumerate 0 before @ (length before, item) # List.enumerate (Suc (length before)) after"
    by (simp add: assms(1) enumerate_append_eq)
  have 1: "fst (extract_work_orders_from_dict L clocks url data) =
      created_of L clocks url (List.enumerate 0 before) @
      created_of L clocks url (List.enumerate (Suc (length before)) after)"
    unfolding extract_eq en by (simp add: created_of_append created_of_Cons c)
  have 2: "length (snd (extract_work_orders_from_dict L clocks url data)) =
      length (batch_items data)"
    unfolding extract_eq by simp
  have 3: "snd (extract_work_orders_from_dict L clocks url data) ! length before = Failed e item"
    unfolding extract_eq en by (simp add: nth_append c)
  from c 1 2 3 show ?thesis by blast
qed

theorem failing_record_dropped_batch_continues_witness:
  "map raw_id (fst (extract_work_orders_from_dict example_lib (\<lambda>n. example_clock) ''u''
      [(''tasks'', JList [JObj [(''id'', JStr ''t-1'')], numeric_status_task,
                          JObj [(''id'', JStr ''t-3'')]])])) = [''t-1'', ''t-3''] \<and>
   snd (extract_work_orders_from_dict example_lib (\<lambda>n. example_clock) ''u''
      [(''tasks'', JList [JObj [(''id'', JStr ''t-1'')], numeric_status_task,
                          JObj [(''id'', JStr ''t-3'')]])]) ! 1 =
     Failed AttributeError numeric_status_task"
proof -
  have b: "batch_items [(''tasks'', JList [JObj [(''id'', JStr ''t-1'')], numeric_status_task,
                          JObj [(''id'', JStr ''t-3'')]])] =
      [JObj [(''id'', JStr ''t-1'')]] @ numeric_status_task # [JObj [(''id'', JStr ''t-3'')]]"
    by (simp add: batch_items_def work_order_patterns_def)
  have f: "create_body example_lib ((\<lambda>n. example_clock) (length [JObj [(''id'', JStr ''t-1'')]]))
      ''u'' numeric_status_task = Inl AttributeError"
    by (simp add: create_body_def numeric_status_task_def get2_def lower_of_def and_then_def)
  have c1: "map raw_id (created_of example_lib (\<lambda>n. example_clock) ''u''
      (List.enumerate 0 [JObj [(''id'', JStr ''t-1'')]])) = [''t-1'']"
    by code_simp
  have c3: "map raw_id (created_of example_lib (\<lambda>n. example_clock) ''u''
      (List.enumerate (Suc (length [JObj [(''id'', JStr ''t-1'')]])) [JObj [(''id'', JStr ''t-3'')]])) =
      [''t-3'']"
    by code_simp
  note t = failing_record_dropped_batch_continues [OF b f]
  from t have "map raw_id (fst (extract_work_orders_from_dict example_lib (\<lambda>n. example_clock) ''u''
      [(''tasks'', JList [JObj [(''id'', JStr ''t-1'')], numeric_status_task,
                          JObj [(''id'', JStr ''t-3'')]])])) =
      map raw_id (created_of example_lib (\<lambda>n. example_clock) ''u''
        (List.enumerate 0 [JObj [(''id'', JStr ''t-1'')]])) @
      map raw_id (created_of example_lib (\<lambda>n. example_clock) ''u''
        (List.enumerate (Suc (length [JObj [(''id'', JStr ''t-1'')]])) [JObj [(''id'', JStr ''t-3'')]]))"
    by simp
  then have 1: "map raw_id (fst (extract_work_orders_from_dict example_lib (\<lambda>n. example_clock) ''u''
      [(''tasks'', JList [JObj [(''id'', JStr ''t-1'')], numeric_status_task,
                          JObj [(''id'', JStr ''t-3'')]])])) = [''t-1'', ''t-3'']"
    unfolding c1 c3 by simp
  from t have 2: "snd (extract_work_orders_from_dict example_lib (\<lambda>n. example_clock) ''u''
      [(''tasks'', JList [JObj [(''id'', JStr ''t-1'')], numeric_status_task,
                          JObj [(''id'', JStr ''t-3'')]])]) ! 1 =
     Failed AttributeError numeric_status_task"
    by simp
  from 1 2 show ?thesis ..
qed


section \<open>Identifiers derived from the content\<close>



lemma no_parse_cases: "no_parse L v \<longleftrightarrow> falls_through L v \<or> parse_raises L v"
  by (cases v) (auto simp: no_parse_def falls_through_def parse_raises_def split: option.splits)

lemma parse_timestamp_falls_through:
  "falls_through L v \<Longrightarrow> parse_timestamp L now v = Inr now"
  by (cases v) (auto simp: parse_timestamp_def falls_through_def)

lemma parse_timestamp_raises:
  "parse_raises L v \<Longrightarrow> \<exists>e. parse_timestamp L now v = Inl e"
  by (cases v)
     (auto simp: parse_timestamp_def parse_raises_def from_unix_def split: option.splits)

lemma create_body_due_raises:
  assumes "parse_raises L (get3 d ''due_date'' ''deadline'' ''due'' JNull)"
  shows "\<exists>e. create_body L c url (JObj d) = Inl e"
proof (cases "create_body L c url (JObj d)")
  case (Inl e)
  then show ?thesis by blast
next
  case (Inr wo)
  from create_bodyD [OF Inr] obtain due where
    "parse_timestamp L (at_due c) (get3 d ''due_date'' ''deadline'' ''due'' JNull) = Inr due"
    by blast
  with parse_timestamp_raises [OF assms, of "at_due c"] show ?thesis
    by auto
qed

section \<open>The due date of a normalized work order\<close>

text \<open>
  Claim C10, as the code has it. Every work order that the normalizer produces has a due
  date. When the value found under \<^verbatim>\<open>due_date\<close>, \<^verbatim>\<open>deadline\<close> or \<^verbatim>\<open>due\<close> falls
  through (in particular when none of the keys is present), \<^verbatim>\<open>_parse_timestamp\<close>
  returns the reading of the clock, and that is the due date of the work order produced.
  When a parse attempt raises for that value, the normalizer produces no work order.
\<close>

theorem due_date_clock_or_dropped:
  "(fst (create_work_order_from_data L c url (JObj d)) = Some wo \<longrightarrow> raw_due_date wo \<noteq> None) \<and>
   (map_of d ''due_date'' = None \<and> map_of d ''deadline'' = None \<and> map_of d ''due'' = None \<longrightarrow>
      falls_through L (get3 d ''due_date'' ''deadline'' ''due'' JNull)) \<and>
   (falls_through L (get3 d ''due_date'' ''deadline'' ''due'' JNull) \<longrightarrow>
      parse_timestamp L (at_due c) (get3 d ''due_date'' ''deadline'' ''due'' JNull) =
        Inr (at_due c) \<and>
      (fst (create_work_order_from_data L c url (JObj d)) = Some wo \<longrightarrow>
         raw_due_date wo = Some (at_due c))) \<and>
   (parse_raises L (get3 d ''due_date'' ''deadline'' ''due'' JNull) \<longrightarrow>
      fst (create_work_order_from_data L c url (JObj d)) = None)"
proof -
  have 1: "raw_due_date wo \<noteq> None"
    if "fst (create_work_order_from_data L c url (JObj d)) = Some wo"
  proof -
    from that have "create_body L c url (JObj d) = Inr wo"
      by (simp add: create_Some)
    from create_bodyD [OF this] show ?thesis by auto
  qed
  have 2: "falls_through L (get3 d ''due_date'' ''deadline'' ''due'' JNull)"
    if "map_of d ''due_date'' = None \<and> map_of d ''deadline'' = None \<and> map_of d ''due'' = None"
    using that by (simp add: get3_absent falls_through_def)
  have 3: "parse_timestamp L (at_due c) (get3 d ''due_date'' ''deadline'' ''due'' JNull) =
        Inr (at_due c)"
    if "falls_through L (get3 d ''due_date'' ''deadline'' ''due'' JNull)"
    using that by (rule parse_timestamp_falls_through)
  have 4: "raw_due_date wo = Some (at_due c)"
    if f: "falls_through L (get3 d ''due_date'' ''deadline'' ''due'' JNull)"
      and p: "fst (create_work_order_from_data L c url (JObj d)) = Some wo"
  proof -
    from p have "create_body L c url (JObj d) = Inr wo"
      by (simp add: create_Some)
    from create_bodyD [OF this] obtain due where
      "parse_timestamp L (at_due c) (get3 d ''due_date'' ''deadline'' ''due'' JNull) = Inr due"
      and "raw_due_date wo = Some due"
      by blast
    with 3 [OF f] show ?thesis by simp
  qed
  have 5: "fst (create_work_order_from_data L c url (JObj d)) = None"
    if "parse_raises L (get3 d ''due_date'' ''deadline'' ''due'' JNull)"
  proof -
    from create_body_due_raises [OF that, of c url]
    obtain e where "create_body L c url (JObj d) = Inl e" ..
    then show ?thesis
      by (simp add: create_Failed)
  qed
  from 1 2 3 4 5 show ?thesis by blast
qed

theorem due_date_clock_or_dropped_witness:
  "raw_due_date (the (fst (create_work_order_from_data example_lib example_clock ''u''
      (JObj [(''id'', JStr ''t-1''), (''deadline'', JStr ''next week'')])))) =
     Some (at_due example_clock)"
proof -
  have p: "fst (create_work_order_from_data example_lib example_clock ''u''
      (JObj [(''id'', JStr ''t-1''), (''deadline'', JStr ''next week'')])) =
      Some (the (fst (create_work_order_from_data example_lib example_clock ''u''
      (JObj [(''id'', JStr ''t-1''), (''deadline'', JStr ''next week'')]))))"
    by code_simp
  have n: "falls_through example_lib
      (get3 [(''id'', JStr ''t-1''), (''deadline'', JStr ''next week'')]
         ''due_date'' ''deadline'' ''due'' JNull)"
    by code_simp
  from due_date_clock_or_dropped [of example_lib example_clock "''u''"
      "[(''id'', JStr ''t-1''), (''deadline'', JStr ''next week'')]"
      "the (fst (create_work_order_from_data example_lib example_clock ''u''
      (JObj [(''id'', JStr ''t-1''), (''deadline'', JStr ''next week'')])))"] p n
  show ?thesis
    by blast
qed

text \<open>
  Claim C10 as stated fails. A due date given in milliseconds, 1715938200000, is a number
  that \<^verbatim>\<open>fromtimestamp\<close> rejects (the year is out of range), so no parse attempt yields
  a time for it; the exception is caught only by the handler of
  \<^verbatim>\<open>_create_work_order_from_data\<close>, and no work order is produced: the due date is not
  set to the current time.
\<close>

theorem due_date_millisecond_counterexample:
  "no_parse example_lib
     (get3 [(''id'', JStr ''t-1''), (''due'', JInt 1715938200000)]
        ''due_date'' ''deadline'' ''due'' JNull) \<and>
   fst (create_work_order_from_data example_lib example_clock ''u''
     (JObj [(''id'', JStr ''t-1''), (''due'', JInt 1715938200000)])) = None"
  by code_simp

end
